theory Spec2Isabelle
  imports Main "HOL-Library.AList"
begin

section \<open>The storage and security engine of System-Ya-Mbogi\<close>

text \<open>
  A shallow embedding of \<^verbatim>\<open>src/utils/githubStorage.js\<close> (classes
  \<^verbatim>\<open>SecurityManager\<close>, \<^verbatim>\<open>ContentValidator\<close>, \<^verbatim>\<open>GitHubStorage\<close>) and of
  \<^verbatim>\<open>validateFile\<close> of the email form.

  Conventions of the embedding:
  \<^item> a JSON document is a \<open>jval\<close>; an object keeps its keys in insertion order, as
    \<^verbatim>\<open>JSON.stringify\<close> sees them. Numbers are integers (exact for JavaScript below
    \<open>2^53\<close>); a time stamp is the number of milliseconds since the epoch, so the
    round trip \<^verbatim>\<open>new Date(t).toISOString()\<close> / \<^verbatim>\<open>new Date(s).getTime()\<close> is the
    identity and is not written out;
  \<^item> \<^verbatim>\<open>throw\<close> is \<open>Inl\<close> of an \<open>error\<close>, a normal return is \<open>Inr\<close>; an
    \<^verbatim>\<open>async\<close> method that changes the remote repository or the object returns the
    new state beside its result;
  \<^item> the clock (\<^verbatim>\<open>Date.now()\<close>), the random sources (\<^verbatim>\<open>uuidv4\<close>,
    \<^verbatim>\<open>crypto.getRandomValues\<close>, \<^verbatim>\<open>WordArray.random\<close>) and the functions of the
    CryptoJS library (SHA-256, PBKDF2, AES) are parameters of the functions that use
    them: every theorem holds for each of their values;
  \<^item> the base64 and JSON text layer between a document and the content of a file
    (\<^verbatim>\<open>encodeContent\<close>, \<^verbatim>\<open>decodeContent\<close>) is the identity on \<open>jval\<close>.
\<close>

subsection \<open>JSON values as JavaScript sees them\<close>

datatype jval =
    JNull
  | JBool bool
  | JNum int
  | JStr string
  | JArr "jval list"
  | JObj "(string \<times> jval) list"

text \<open>\<^verbatim>\<open>x.k\<close>: the value of an own property, \<open>None\<close> for \<^verbatim>\<open>undefined\<close>.\<close>

fun field :: "jval \<Rightarrow> string \<Rightarrow> jval option" where
  "field (JObj kvs) k = map_of kvs k"
| "field _ k = None"

text \<open>
  \<^verbatim>\<open>{...x, k: v}\<close> and \<^verbatim>\<open>x.k = v\<close> on an object: an existing key keeps its place, a
  new key goes last. A value that is not an object has no own string keys that the
  documents of this program use, so the spread starts from the empty object.
\<close>

fun set_field :: "jval \<Rightarrow> string \<Rightarrow> jval \<Rightarrow> jval" where
  "set_field (JObj kvs) k v = JObj (AList.update k v kvs)"
| "set_field _ k v = JObj [(k, v)]"

text \<open>JavaScript truthiness, as \<^verbatim>\<open>if (x)\<close>, \<^verbatim>\<open>!x\<close>, \<^verbatim>\<open>x && y\<close> and \<^verbatim>\<open>x || y\<close> test it.\<close>

fun truthy :: "jval option \<Rightarrow> bool" where
  "truthy None = False"
| "truthy (Some JNull) = False"
| "truthy (Some (JBool b)) = b"
| "truthy (Some (JNum n)) = (n \<noteq> 0)"
| "truthy (Some (JStr s)) = (s \<noteq> [])"
| "truthy (Some (JArr xs)) = True"
| "truthy (Some (JObj kvs)) = True"

subsection \<open>Errors\<close>

text \<open>
  One constructor for each \<^verbatim>\<open>new Error(...)\<close> of the source that the modelled
  methods can throw, \<open>GitHubApiError status\<close> for the error \<^verbatim>\<open>makeRequest\<close> builds from
  a response that is not ok, and \<open>TypeError\<close> / \<open>DecodeError\<close> for the exceptions the
  JavaScript runtime raises (a call of a method that does not exist, a property read on
  \<^verbatim>\<open>null\<close> or \<^verbatim>\<open>undefined\<close>, \<^verbatim>\<open>atob\<close> or \<^verbatim>\<open>JSON.parse\<close> on a text that is not
  encoded content).
\<close>

datatype error =
    GitHubApiError nat
  | DataIntegrityCheckFailed
  | EmailNotFound
  | FolderNotFound
  | FolderIdRequired
  | AdminPasswordRequired
  | InvalidFolderAdminPassword
  | RateLimitExceededFolderCreation
  | RateLimitExceededEmailCreation
  | FolderNameAndTargetEmailRequired
  | FailedToCreateFolder error
  | FileExceeds5MB
  | FileTypeNotSupported
  | AttachmentExceeds10MB
  | InvalidAttachmentType
  | TypeError
  | DecodeError

text \<open>
  \<^verbatim>\<open>error.message.includes('404')\<close> and \<^verbatim>\<open>error.message.includes('409')\<close>: the
  source tells errors apart by the digits in their message. The message of a
  \<open>GitHubApiError\<close> carries its status; the texts of the other errors carry no digits,
  and the text the backend sends with a status is taken not to spell another status.
\<close>

fun message_includes :: "error \<Rightarrow> nat \<Rightarrow> bool" where
  "message_includes (GitHubApiError s) code = (s = code)"
| "message_includes (FailedToCreateFolder e) code = message_includes e code"
| "message_includes _ code = False"

subsection \<open>The remote repository behind \<^verbatim>\<open>makeRequest\<close>\<close>

text \<open>
  The contents API of the backing repository, as section 6 of the specification
  describes it: a file has a version token \<open>sha\<close> and a content; \<^verbatim>\<open>GET\<close> of a file
  answers both, \<^verbatim>\<open>GET\<close> of a directory answers its entries, of anything else 404;
  \<^verbatim>\<open>PUT\<close> creates a file when no token is sent and none exists, updates it when the
  token sent is the current one, and answers 409 on another token and 422 when an
  existing file is written with no token; \<^verbatim>\<open>DELETE\<close> removes a file under the same
  token check (422 when no token is sent). A directory exists exactly while a file lies
  below it. Tokens are drawn from a counter, so no two versions share one.
  The content of a file is kept decoded, as the document that \<^verbatim>\<open>decodeContent\<close>
  would read from it; the empty content of a \<^verbatim>\<open>.gitkeep\<close> marker is the empty string.
  The methods below load only paths that end in \<^verbatim>\<open>.json\<close>, never a marker.
\<close>

record blob =
  sha :: nat
  content :: jval

record repo =
  files :: "(string \<times> blob) list"
  nextSha :: nat

datatype response = FileResponse blob | DirResponse "string list"

definition child_of :: "string \<Rightarrow> string \<Rightarrow> string option" where
  "child_of dir p =
     (let pre = dir @ ''/'' in
      if take (length pre) p = pre \<and> length pre < length p
      then Some (takeWhile (\<lambda>c. c \<noteq> CHR ''/'') (drop (length pre) p))
      else None)"

definition entries :: "repo \<Rightarrow> string \<Rightarrow> string list" where
  "entries r dir = remdups (List.map_filter (\<lambda>(p, b). child_of dir p) (files r))"

definition GET :: "repo \<Rightarrow> string \<Rightarrow> error + response" where
  "GET r path =
     (case map_of (files r) path of
        Some b \<Rightarrow> Inr (FileResponse b)
      | None \<Rightarrow>
          (case entries r path of
             [] \<Rightarrow> Inl (GitHubApiError 404)
           | ns \<Rightarrow> Inr (DirResponse ns)))"

definition write_file :: "repo \<Rightarrow> string \<Rightarrow> jval \<Rightarrow> repo" where
  "write_file r path d =
     \<lparr>files = AList.update path \<lparr>sha = nextSha r, content = d\<rparr> (files r),
      nextSha = Suc (nextSha r)\<rparr>"

text \<open>
  A path that lies below a file, or that is itself a directory, cannot be written as a
  file: the repository is a tree.
\<close>

fun ancestors_from :: "string \<Rightarrow> string \<Rightarrow> string list" where
  "ancestors_from pre [] = []"
| "ancestors_from pre (c # cs) =
     (if c = CHR ''/'' then pre # ancestors_from (pre @ [c]) cs
      else ancestors_from (pre @ [c]) cs)"

definition blocked :: "repo \<Rightarrow> string \<Rightarrow> bool" where
  "blocked r path =
     (list_ex (\<lambda>p. map_of (files r) p \<noteq> None) (ancestors_from [] path) \<or>
      entries r path \<noteq> [])"

definition PUT :: "repo \<Rightarrow> string \<Rightarrow> jval \<Rightarrow> nat option \<Rightarrow> error + repo" where
  "PUT r path d token =
     (case map_of (files r) path of
        None \<Rightarrow>
          if blocked r path then Inl (GitHubApiError 422)
          else
            (case token of
               None \<Rightarrow> Inr (write_file r path d)
             | Some s \<Rightarrow> Inl (GitHubApiError 409))
      | Some b \<Rightarrow>
          (case token of
             None \<Rightarrow> Inl (GitHubApiError 422)
           | Some s \<Rightarrow>
               if s = sha b then Inr (write_file r path d)
               else Inl (GitHubApiError 409)))"

definition DELETE :: "repo \<Rightarrow> string \<Rightarrow> nat option \<Rightarrow> error + repo" where
  "DELETE r path token =
     (case token of
        None \<Rightarrow> Inl (GitHubApiError 422)
      | Some s \<Rightarrow>
          (case map_of (files r) path of
             None \<Rightarrow> Inl (GitHubApiError 404)
           | Some b \<Rightarrow>
               if s = sha b
               then Inr (r\<lparr>files := AList.delete path (files r)\<rparr>)
               else Inl (GitHubApiError 409)))"

subsection \<open>\<^verbatim>\<open>loadData\<close> and \<^verbatim>\<open>saveData\<close>\<close>

text \<open>
  \<open>H\<close> stands for \<^verbatim>\<open>SecurityManager.generateChecksum\<close>, the SHA-256 digest of
  \<^verbatim>\<open>JSON.stringify(data)\<close>, printed in hexadecimal.

  \<^verbatim>\<open>loadData(path)\<close>: 404 is \<^verbatim>\<open>null\<close> (\<open>Inr None\<close>); a directory listing has no
  \<^verbatim>\<open>content\<close> to decode; the document \<^verbatim>\<open>null\<close> has no property to read; a truthy
  checksum is compared with the digest of the document with its checksum emptied.
\<close>

definition loadData :: "(jval \<Rightarrow> string) \<Rightarrow> repo \<Rightarrow> string \<Rightarrow> error + jval option" where
  "loadData H r path =
     (case GET r path of
        Inl e \<Rightarrow> if message_includes e 404 then Inr None else Inl e
      | Inr (DirResponse ns) \<Rightarrow> Inl DecodeError
      | Inr (FileResponse b) \<Rightarrow>
          (let data = content b in
           if data = JNull then Inl TypeError
           else if truthy (field data ''checksum'') \<and>
                   field data ''checksum'' \<noteq>
                     Some (JStr (H (set_field data ''checksum'' (JStr ''''))))
           then Inl DataIntegrityCheckFailed
           else Inr (Some data)))"

text \<open>
  \<^verbatim>\<open>saveData(path, data)\<close>, first half: read the file that is there, keep its token
  and check the integrity of what is stored. The digest is taken of the stored document
  as it is, its own checksum included.
\<close>

definition saveData_existing :: "(jval \<Rightarrow> string) \<Rightarrow> repo \<Rightarrow> string \<Rightarrow> error + nat option" where
  "saveData_existing H r path =
     (case GET r path of
        Inl e \<Rightarrow> if message_includes e 404 then Inr None else Inl e
      | Inr (DirResponse ns) \<Rightarrow> Inr None
      | Inr (FileResponse b) \<Rightarrow>
          (let existingData = content b in
           if existingData = JNull then Inl TypeError
           else if truthy (field existingData ''checksum'') \<and>
                   field existingData ''checksum'' \<noteq> Some (JStr (H existingData))
           then Inl DataIntegrityCheckFailed
           else Inr (Some (sha b))))"

text \<open>
  Second half: the \<^verbatim>\<open>while (retries > 0)\<close> loop around the \<^verbatim>\<open>PUT\<close>. A 409 leaves the
  loop at once; any other failure is tried again until three attempts are spent, and
  the last error is thrown.
\<close>

fun saveData_put ::
  "nat \<Rightarrow> error option \<Rightarrow> repo \<Rightarrow> string \<Rightarrow> jval \<Rightarrow> nat option \<Rightarrow> (error + unit) \<times> repo" where
  "saveData_put 0 lastError r path d token =
     (case lastError of Some e \<Rightarrow> (Inl e, r) | None \<Rightarrow> (Inr (), r))"
| "saveData_put (Suc retries) lastError r path d token =
     (case PUT r path d token of
        Inr r' \<Rightarrow> (Inr (), r')
      | Inl e \<Rightarrow>
          if message_includes e 409 then (Inl e, r)
          else saveData_put retries (Some e) r path d token)"

definition saveData :: "(jval \<Rightarrow> string) \<Rightarrow> repo \<Rightarrow> string \<Rightarrow> jval \<Rightarrow> (error + unit) \<times> repo" where
  "saveData H r path d =
     (case saveData_existing H r path of
        Inl e \<Rightarrow> (Inl e, r)
      | Inr token \<Rightarrow> saveData_put 3 None r path d token)"

subsection \<open>The objects: \<^verbatim>\<open>SecurityManager\<close> and \<^verbatim>\<open>GitHubStorage\<close>\<close>

text \<open>
  \<^verbatim>\<open>SecurityManager\<close> holds the rate-limit table (a \<^verbatim>\<open>Map\<close> from
  \<^verbatim>\<open>`${ip}:${action}`\<close> to the time stamps of the admitted requests) and the set of
  blacklisted addresses; both live in the memory of one process. \<^verbatim>\<open>GitHubStorage\<close>
  owns one \<^verbatim>\<open>SecurityManager\<close> and the flag \<^verbatim>\<open>initialized\<close>; \<open>remote\<close> is the
  repository its requests reach.
\<close>

record securityManager =
  rateLimitCache :: "string \<rightharpoonup> int list"
  blacklistedIPs :: "string set"

record gitHubStorage =
  remote :: repo
  security :: securityManager
  initialized :: bool

subsection \<open>\<^verbatim>\<open>updateEmailLikes\<close>\<close>

text \<open>
  \<^verbatim>\<open>action === 'increment' ? email.likes + 1 : Math.max(0, email.likes - 1)\<close>.
  The stored \<^verbatim>\<open>likes\<close> is a number in every document this program writes
  (\<^verbatim>\<open>saveEmail\<close> writes 0); on \<^verbatim>\<open>undefined\<close> the arithmetic gives \<^verbatim>\<open>NaN\<close>, which
  is stored as \<^verbatim>\<open>null\<close>. The coercions of JavaScript for the other values that are
  not numbers are outside the data model and are read as \<^verbatim>\<open>NaN\<close> too.
\<close>

fun likes_after :: "string \<Rightarrow> jval option \<Rightarrow> jval" where
  "likes_after action (Some (JNum n)) =
     JNum (if action = ''increment'' then n + 1 else max 0 (n - 1))"
| "likes_after action _ = JNull"

definition emailPath :: "string \<Rightarrow> string \<Rightarrow> string" where
  "emailPath folderId emailId = ''data/emails/'' @ folderId @ ''/'' @ emailId @ ''.json''"

text \<open>
  The method up to its second \<^verbatim>\<open>await\<close>: load the email, build \<^verbatim>\<open>updatedEmail\<close>
  and give it the digest of itself, taken while it still carries the checksum it was
  loaded with.
\<close>

definition updateEmailLikes_read ::
  "(jval \<Rightarrow> string) \<Rightarrow> int \<Rightarrow> repo \<Rightarrow> string \<Rightarrow> string \<Rightarrow> string \<Rightarrow> error + jval" where
  "updateEmailLikes_read H now r folderId emailId action =
     (case loadData H r (emailPath folderId emailId) of
        Inl e \<Rightarrow> Inl e
      | Inr None \<Rightarrow> Inl EmailNotFound
      | Inr (Some email) \<Rightarrow>
          if \<not> truthy (Some email) then Inl EmailNotFound
          else
            (let updatedEmail =
                   set_field
                     (set_field email ''likes'' (likes_after action (field email ''likes'')))
                     ''updatedAt'' (JNum now)
             in Inr (set_field updatedEmail ''checksum'' (JStr (H updatedEmail)))))"

definition updateEmailLikes ::
  "(jval \<Rightarrow> string) \<Rightarrow> int \<Rightarrow> gitHubStorage \<Rightarrow> string \<Rightarrow> string \<Rightarrow> string \<Rightarrow>
   (error + jval) \<times> gitHubStorage" where
  "updateEmailLikes H now g folderId emailId action =
     (case updateEmailLikes_read H now (remote g) folderId emailId action of
        Inl e \<Rightarrow> (Inl e, g)
      | Inr updatedEmail \<Rightarrow>
          (case saveData H (remote g) (emailPath folderId emailId) updatedEmail of
             (Inl e, r') \<Rightarrow> (Inl e, g\<lparr>remote := r'\<rparr>)
           | (Inr u, r') \<Rightarrow> (Inr updatedEmail, g\<lparr>remote := r'\<rparr>)))"

text \<open>
  Two calls of \<^verbatim>\<open>updateEmailLikes\<close> for one email whose awaits interleave: both load
  the email, both run the first half of \<^verbatim>\<open>saveData\<close>, then the first and the second
  send their \<^verbatim>\<open>PUT\<close>. The result is what each call returns and the repository left.
\<close>

definition overlapping_updateEmailLikes ::
  "(jval \<Rightarrow> string) \<Rightarrow> int \<Rightarrow> int \<Rightarrow> repo \<Rightarrow> string \<Rightarrow> string \<Rightarrow>
   (error + jval) \<times> (error + jval) \<times> repo" where
  "overlapping_updateEmailLikes H now1 now2 r folderId emailId =
     (let path = emailPath folderId emailId;
          read1 = updateEmailLikes_read H now1 r folderId emailId ''increment'';
          read2 = updateEmailLikes_read H now2 r folderId emailId ''increment'';
          token1 = saveData_existing H r path;
          token2 = saveData_existing H r path;
          (res1, r1) =
            (case (read1, token1) of
               (Inr u, Inr t) \<Rightarrow>
                 (case saveData_put 3 None r path u t of
                    (Inl e, r') \<Rightarrow> (Inl e, r') | (Inr x, r') \<Rightarrow> (Inr u, r'))
             | (Inl e, _) \<Rightarrow> (Inl e, r)
             | (_, Inl e) \<Rightarrow> (Inl e, r));
          (res2, r2) =
            (case (read2, token2) of
               (Inr u, Inr t) \<Rightarrow>
                 (case saveData_put 3 None r1 path u t of
                    (Inl e, r') \<Rightarrow> (Inl e, r') | (Inr x, r') \<Rightarrow> (Inr u, r'))
             | (Inl e, _) \<Rightarrow> (Inl e, r1)
             | (_, Inl e) \<Rightarrow> (Inl e, r1))
      in (res1, res2, r2))"

subsection \<open>\<^verbatim>\<open>SecurityManager.checkRateLimit\<close>\<close>

definition RATE_LIMITS :: "string \<Rightarrow> (nat \<times> int) option" where
  "RATE_LIMITS =
     map_of [(''CREATE_FOLDER'', (5, 3600000)),
             (''CREATE_EMAIL'', (20, 3600000)),
             (''CREATE_VERSION'', (10, 3600000)),
             (''LIKE_ACTION'', (50, 3600000)),
             (''DOWNLOAD_ATTACHMENT'', (100, 3600000))]"

text \<open>
  \<^verbatim>\<open>checkRateLimit(ip, action)\<close> at time \<open>now\<close>. A blacklisted address is refused
  first. Otherwise the key gets an empty list if it has none, the time stamps inside
  the window are kept, and a request below the limit is recorded and admitted.

  At the limit the method calls \<^verbatim>\<open>this.flagSuspiciousIP(ip, action)\<close>. Here \<^verbatim>\<open>this\<close>
  is the \<^verbatim>\<open>SecurityManager\<close>, and \<^verbatim>\<open>flagSuspiciousIP\<close> is a method of
  \<^verbatim>\<open>GitHubStorage\<close> only: the property is \<^verbatim>\<open>undefined\<close>, the call throws a
  \<^verbatim>\<open>TypeError\<close>, and \<^verbatim>\<open>return false\<close> is never reached. An action that is not a key
  of \<^verbatim>\<open>RATE_LIMITS\<close> throws at \<^verbatim>\<open>limit.max\<close>.
\<close>

definition checkRateLimit ::
  "int \<Rightarrow> securityManager \<Rightarrow> string \<Rightarrow> string \<Rightarrow> (error + bool) \<times> securityManager" where
  "checkRateLimit now sm ip action =
     (if ip \<in> blacklistedIPs sm then (Inr False, sm)
      else
        (let key = ip @ '':'' @ action;
             sm1 = (if rateLimitCache sm key = None
                    then sm\<lparr>rateLimitCache := (rateLimitCache sm)(key \<mapsto> [])\<rparr> else sm);
             requests = (case rateLimitCache sm1 key of Some ts \<Rightarrow> ts | None \<Rightarrow> [])
         in case RATE_LIMITS action of
              None \<Rightarrow> (Inl TypeError, sm1)
            | Some (limit_max, window) \<Rightarrow>
                (let recentRequests = filter (\<lambda>time. now - time < window) requests in
                 if limit_max \<le> length recentRequests then (Inl TypeError, sm1)
                 else (Inr True,
                       sm1\<lparr>rateLimitCache :=
                              (rateLimitCache sm1)(key \<mapsto> recentRequests @ [now])\<rparr>))))"

text \<open>A sequence of calls on one \<^verbatim>\<open>SecurityManager\<close>, each with its time, address and action.\<close>

fun checkRateLimit_calls ::
  "securityManager \<Rightarrow> (int \<times> string \<times> string) list \<Rightarrow> (error + bool) list \<times> securityManager" where
  "checkRateLimit_calls sm [] = ([], sm)"
| "checkRateLimit_calls sm ((now, ip, action) # cs) =
     (case checkRateLimit now sm ip action of
        (res, sm') \<Rightarrow>
          (case checkRateLimit_calls sm' cs of (rs, sm'') \<Rightarrow> (res # rs, sm'')))"

subsection \<open>\<^verbatim>\<open>GitHubStorage.addToBlacklist\<close>\<close>

definition TIME_WINDOW :: int where
  "TIME_WINDOW = 7 * 24 * 60 * 60 * 1000"

definition REPORTS_THRESHOLD :: nat where
  "REPORTS_THRESHOLD = 3"

definition blacklistPath :: string where
  "blacklistPath = ''data/blacklist/ips.json''"

text \<open>
  \<^verbatim>\<open>Date.now() - new Date(report.timestamp).getTime() <= TIME_WINDOW\<close>; without a time
  stamp the age is \<^verbatim>\<open>NaN\<close> and the comparison is false.
\<close>

definition recent_report :: "int \<Rightarrow> jval \<Rightarrow> bool" where
  "recent_report now report =
     (case field report ''timestamp'' of
        Some (JNum t) \<Rightarrow> now - t \<le> TIME_WINDOW
      | _ \<Rightarrow> False)"

definition empty_blacklist :: jval where
  "empty_blacklist =
     JObj [(''ips'', JArr []), (''entries'', JObj []), (''pendingReports'', JObj [])]"

text \<open>
  The body of the promotion in \<^verbatim>\<open>addToBlacklist\<close>:
  \<^verbatim>\<open>blacklist.ips.push(ipHash)\<close>, \<^verbatim>\<open>blacklist.entries[ipHash] = {timestamp, reports}\<close>
  and \<^verbatim>\<open>delete blacklist.pendingReports[ipHash]\<close>.
\<close>

definition promoted_blacklist ::
  "jval \<Rightarrow> string \<Rightarrow> int \<Rightarrow> jval list \<Rightarrow> (string \<times> jval) list \<Rightarrow> (string \<times> jval) list \<Rightarrow>
   jval list \<Rightarrow> jval" where
  "promoted_blacklist blacklist h now ips ents pending recentReports =
     set_field
       (set_field
          (set_field blacklist ''ips'' (JArr (ips @ [JStr h])))
          ''entries''
          (JObj (AList.update h
             (JObj [(''timestamp'', JNum now), (''reports'', JArr recentReports)]) ents)))
       ''pendingReports''
       (JObj (AList.delete h pending))"

text \<open>
  \<^verbatim>\<open>addToBlacklist(ip, evidence)\<close>; \<open>ipHash\<close> stands for
  \<^verbatim>\<open>CryptoJS.SHA256(ip).toString()\<close>. The blacklist document is loaded (or started
  empty), the report is appended to the pending reports of the hash, and when at least
  three reports of the hash are recent and the hash is not yet among \<^verbatim>\<open>ips\<close>, the
  hash is promoted: it is pushed to \<^verbatim>\<open>ips\<close>, gets an entry, loses its pending
  reports, and the address itself is added to the \<^verbatim>\<open>blacklistedIPs\<close> of this
  object's \<^verbatim>\<open>SecurityManager\<close>. Then the document is saved; the set in memory keeps
  the address even when the save throws. A document whose \<^verbatim>\<open>pendingReports\<close>,
  \<^verbatim>\<open>reports\<close>, \<^verbatim>\<open>ips\<close> or \<^verbatim>\<open>entries\<close> is not of the shape the method writes makes
  the access throw.
\<close>

definition addToBlacklist ::
  "(jval \<Rightarrow> string) \<Rightarrow> (string \<Rightarrow> string) \<Rightarrow> int \<Rightarrow> gitHubStorage \<Rightarrow> string \<Rightarrow> jval \<Rightarrow>
   (error + unit) \<times> gitHubStorage" where
  "addToBlacklist H ipHash now g ip evidence =
     (case loadData H (remote g) blacklistPath of
        Inl e \<Rightarrow> (Inl e, g)
      | Inr loaded \<Rightarrow>
          (let blacklist = (case loaded of
                              Some d \<Rightarrow> if truthy (Some d) then d else empty_blacklist
                            | None \<Rightarrow> empty_blacklist)
           in case field blacklist ''pendingReports'' of
                Some (JObj pending) \<Rightarrow>
                  (let entry = (case map_of pending (ipHash ip) of
                                  Some en \<Rightarrow>
                                    if truthy (Some en) then en
                                    else JObj [(''reports'', JArr []), (''firstReportedAt'', JNum now)]
                                | None \<Rightarrow>
                                    JObj [(''reports'', JArr []), (''firstReportedAt'', JNum now)])
                   in case field entry ''reports'' of
                        Some (JArr reports) \<Rightarrow>
                          (let reports' = reports @
                                 [JObj [(''timestamp'', JNum now), (''evidence'', evidence)]];
                               pending' = AList.update (ipHash ip)
                                 (set_field entry ''reports'' (JArr reports')) pending;
                               recentReports = filter (recent_report now) reports';
                               reported = set_field blacklist ''pendingReports'' (JObj pending')
                           in if JNull \<in> set reports' then (Inl TypeError, g)
                              else if REPORTS_THRESHOLD \<le> length recentReports
                              then
                                (case (field blacklist ''ips'', field blacklist ''entries'') of
                                   (Some (JArr ips), Some (JObj ents)) \<Rightarrow>
                                     if JStr (ipHash ip) \<notin> set ips
                                     then
                                       (let promoted =
                                              promoted_blacklist blacklist (ipHash ip) now
                                                ips ents pending' recentReports;
                                            g1 = g\<lparr>security := (security g)
                                                   \<lparr>blacklistedIPs :=
                                                      insert ip (blacklistedIPs (security g))\<rparr>\<rparr>
                                        in case saveData H (remote g1) blacklistPath promoted of
                                             (res, r') \<Rightarrow> (res, g1\<lparr>remote := r'\<rparr>))
                                     else
                                       (case saveData H (remote g) blacklistPath reported of
                                          (res, r') \<Rightarrow> (res, g\<lparr>remote := r'\<rparr>))
                                 | (Some (JArr ips), _) \<Rightarrow>
                                     if JStr (ipHash ip) \<notin> set ips then (Inl TypeError, g)
                                     else
                                       (case saveData H (remote g) blacklistPath reported of
                                          (res, r') \<Rightarrow> (res, g\<lparr>remote := r'\<rparr>))
                                 | _ \<Rightarrow> (Inl TypeError, g))
                              else
                                (case saveData H (remote g) blacklistPath reported of
                                   (res, r') \<Rightarrow> (res, g\<lparr>remote := r'\<rparr>)))
                      | _ \<Rightarrow> (Inl TypeError, g))
              | _ \<Rightarrow> (Inl TypeError, g)))"

subsection \<open>The library: CryptoJS and \<^verbatim>\<open>JSON\<close>\<close>

text \<open>
  The functions of CryptoJS and of the JavaScript runtime that the methods call, taken
  as given: \<open>'w\<close> is the type of a \<^verbatim>\<open>WordArray\<close>. \<open>PBKDF2\<close> is
  \<^verbatim>\<open>CryptoJS.PBKDF2\<close> with the fixed options of the source (512-bit key, 10000
  iterations, SHA-512), printed in hexadecimal; \<open>AES_encrypt\<close> takes the random salt of
  the OpenSSL key derivation, the plain text and the pass phrase; \<open>AES_decrypt\<close>
  answers the UTF-8 text, or throws when the bytes are no UTF-8.
\<close>

record 'w library =
  SHA256 :: "string \<Rightarrow> string"
  PBKDF2 :: "string \<Rightarrow> 'w \<Rightarrow> string"
  Hex_stringify :: "'w \<Rightarrow> string"
  Hex_parse :: "string \<Rightarrow> 'w"
  AES_encrypt :: "'w \<Rightarrow> string \<Rightarrow> string \<Rightarrow> string"
  AES_decrypt :: "string \<Rightarrow> string \<Rightarrow> error + string"
  JSON_stringify :: "jval \<Rightarrow> string"
  JSON_parse :: "string \<Rightarrow> error + jval"

subsection \<open>\<^verbatim>\<open>SecurityManager\<close>: passwords, encryption, checksums\<close>

definition generateChecksum :: "'w library \<Rightarrow> jval \<Rightarrow> string" where
  "generateChecksum L data = SHA256 L (JSON_stringify L data)"

definition encryptContent :: "'w library \<Rightarrow> 'w \<Rightarrow> jval \<Rightarrow> string \<Rightarrow> string" where
  "encryptContent L salt contents password =
     AES_encrypt L salt (JSON_stringify L contents) password"

definition decryptContent :: "'w library \<Rightarrow> string \<Rightarrow> string \<Rightarrow> error + jval" where
  "decryptContent L encryptedContent password =
     (case AES_decrypt L encryptedContent password of
        Inl e \<Rightarrow> Inl e
      | Inr text \<Rightarrow> JSON_parse L text)"

definition securePasswordCharset :: string where
  "securePasswordCharset =
     ''abcdefghijklmnopqrstuvwxyzABCDEFGHIJKLMNOPQRSTUVWXYZ0123456789!@#$%^&*()_+-=[]{}|;:,.<>?''"

text \<open>
  \<^verbatim>\<open>generateSecurePassword()\<close>: \<open>randomBytes\<close> are the 20 bytes of
  \<^verbatim>\<open>crypto.getRandomValues(new Uint8Array(20))\<close>.
\<close>

definition generateSecurePassword :: "nat list \<Rightarrow> string" where
  "generateSecurePassword randomBytes =
     map (\<lambda>byte. securePasswordCharset ! (byte mod length securePasswordCharset)) randomBytes"

text \<open>
  \<^verbatim>\<open>hashPassword(password)\<close> with the salt drawn by \<^verbatim>\<open>WordArray.random(128/8)\<close>;
  the result is the pair \<^verbatim>\<open>{hash, salt}\<close>.
\<close>

definition hashPassword :: "'w library \<Rightarrow> 'w \<Rightarrow> string \<Rightarrow> string \<times> string" where
  "hashPassword L salt password = (PBKDF2 L password salt, Hex_stringify L salt)"

definition verifyPassword :: "'w library \<Rightarrow> string \<Rightarrow> string \<Rightarrow> string \<Rightarrow> bool" where
  "verifyPassword L password storedHash storedSalt =
     (PBKDF2 L password (Hex_parse L storedSalt) = storedHash)"

text \<open>
  \<^verbatim>\<open>verifyPassword(password, doc[hashKey], doc[saltKey])\<close> on a stored document. A
  hash or salt that is not a string makes the method throw inside its \<^verbatim>\<open>try\<close> or
  fail the comparison; the result is \<^verbatim>\<open>false\<close>.
\<close>

definition verifyStoredPassword ::
  "'w library \<Rightarrow> string \<Rightarrow> jval \<Rightarrow> string \<Rightarrow> string \<Rightarrow> bool" where
  "verifyStoredPassword L password doc hashKey saltKey =
     (case (field doc hashKey, field doc saltKey) of
        (Some (JStr h), Some (JStr s)) \<Rightarrow> verifyPassword L password h s
      | _ \<Rightarrow> False)"

subsection \<open>Validation of attachments\<close>

text \<open>The \<^verbatim>\<open>File\<close> of the browser, as \<^verbatim>\<open>validateFile\<close> of the email form reads it.\<close>

record browserFile =
  file_name :: string
  file_type :: string
  file_size :: int

definition MAX_FILE_SIZE :: int where
  "MAX_FILE_SIZE = 5 * 1024 * 1024"

definition ALLOWED_FILE_TYPES :: "string list" where
  "ALLOWED_FILE_TYPES = [''image/jpeg'', ''image/png'', ''application/pdf'', ''text/plain'']"

definition validateFile :: "browserFile \<Rightarrow> error + unit" where
  "validateFile file =
     (if MAX_FILE_SIZE < file_size file then Inl FileExceeds5MB
      else if file_type file \<notin> set ALLOWED_FILE_TYPES then Inl FileTypeNotSupported
      else Inr ())"

text \<open>
  \<^verbatim>\<open>ContentValidator.validateAttachment(attachment)\<close>. A size that is not a number
  compares as \<^verbatim>\<open>NaN\<close> (never greater); a type is allowed when it is one of the four
  strings.
\<close>

definition validateAttachment :: "jval \<Rightarrow> error + unit" where
  "validateAttachment attachment =
     (let maxSize = 10 * 1024 * 1024;
          allowedTypes = [''image/jpeg'', ''image/png'', ''application/pdf'', ''text/plain'']
      in if attachment = JNull then Inl TypeError
         else if (case field attachment ''size'' of Some (JNum n) \<Rightarrow> maxSize < n | _ \<Rightarrow> False)
         then Inl AttachmentExceeds10MB
         else if (case field attachment ''type'' of
                    Some (JStr t) \<Rightarrow> t \<notin> set allowedTypes | _ \<Rightarrow> True)
         then Inl InvalidAttachmentType
         else Inr ())"

subsection \<open>\<^verbatim>\<open>saveEmail\<close>\<close>

definition activeFolderPath :: "string \<Rightarrow> string" where
  "activeFolderPath folderId = ''data/folders/'' @ folderId @ ''.json''"

definition silentFolderPath :: "string \<Rightarrow> string" where
  "silentFolderPath folderId = ''data/silent/folders/'' @ folderId @ ''.json''"

definition linkPath :: "string \<Rightarrow> string" where
  "linkPath token = ''data/metadata/links/'' @ token @ ''.json''"

text \<open>A property whose value is \<^verbatim>\<open>undefined\<close> is left out by \<^verbatim>\<open>JSON.stringify\<close>.\<close>

definition property :: "string \<Rightarrow> jval option \<Rightarrow> (string \<times> jval) list" where
  "property k v = (case v of None \<Rightarrow> [] | Some x \<Rightarrow> [(k, x)])"

text \<open>\<^verbatim>\<open>x || []\<close>.\<close>

definition or_empty_array :: "jval option \<Rightarrow> jval" where
  "or_empty_array v = (case v of Some x \<Rightarrow> if truthy (Some x) then x else JArr [] | None \<Rightarrow> JArr [])"

text \<open>\<^verbatim>\<open>`${attachment.name}`\<close>; a missing name prints as \<^verbatim>\<open>undefined\<close>.\<close>

definition attachmentName :: "jval \<Rightarrow> string" where
  "attachmentName attachment =
     (case field attachment ''name'' of Some (JStr n) \<Rightarrow> n | _ \<Rightarrow> ''undefined'')"

text \<open>
  The \<^verbatim>\<open>Promise.all\<close> over the attachments: every attachment is saved with its
  checksum, one after the other; a failure does not stop the others, and the first
  failure is the one thrown.
\<close>

fun saveAttachments ::
  "(jval \<Rightarrow> string) \<Rightarrow> repo \<Rightarrow> string \<Rightarrow> jval list \<Rightarrow> (error + unit) \<times> repo" where
  "saveAttachments H r dir [] = (Inr (), r)"
| "saveAttachments H r dir (attachment # rest) =
     (case saveData H r (dir @ ''/'' @ attachmentName attachment)
             (set_field attachment ''checksum'' (JStr (H attachment))) of
        (res, r1) \<Rightarrow>
          (case saveAttachments H r1 dir rest of
             (res', r2) \<Rightarrow> (case res of Inl e \<Rightarrow> (Inl e, r2) | Inr u \<Rightarrow> (res', r2))))"

text \<open>
  The object literal \<^verbatim>\<open>emailMetadata\<close> of \<^verbatim>\<open>saveEmail\<close>, with its empty checksum,
  and the document after \<^verbatim>\<open>emailMetadata.checksum = generateChecksum(emailMetadata)\<close>.
\<close>

definition emailDraft ::
  "'w library \<Rightarrow> int \<Rightarrow> string \<Rightarrow> string \<times> string \<Rightarrow> string \<Rightarrow> jval \<Rightarrow> string \<Rightarrow> jval" where
  "emailDraft L now emailId hs folderId emailData ip =
     JObj ([(''id'', JStr emailId), (''folderId'', JStr folderId)]
           @ property ''subject'' (field emailData ''subject'')
           @ property ''body'' (field emailData ''body'')
           @ [(''attachments'', or_empty_array (field emailData ''attachments'')),
              (''createdAt'', JNum now), (''updatedAt'', JNum now),
              (''creatorIP'', JStr (SHA256 L ip)),
              (''passwordHash'', JStr (fst hs)), (''passwordSalt'', JStr (snd hs)),
              (''likes'', JNum 0), (''checksum'', JStr [])])"

definition emailMetadata ::
  "'w library \<Rightarrow> int \<Rightarrow> string \<Rightarrow> string \<times> string \<Rightarrow> string \<Rightarrow> jval \<Rightarrow> string \<Rightarrow> jval" where
  "emailMetadata L now emailId hs folderId emailData ip =
     set_field (emailDraft L now emailId hs folderId emailData ip) ''checksum''
       (JStr (generateChecksum L (emailDraft L now emailId hs folderId emailData ip)))"

text \<open>
  \<^verbatim>\<open>saveEmail(folderId, emailData, ip)\<close>, with the identifier, the random bytes of
  the password and the salt it draws. The rate limit is checked, the folder is looked
  up among the active folders, the email is stored and then its attachments. No
  validator is called.
\<close>

definition saveEmail ::
  "'w library \<Rightarrow> int \<Rightarrow> string \<Rightarrow> nat list \<Rightarrow> 'w \<Rightarrow> gitHubStorage \<Rightarrow> string \<Rightarrow> jval \<Rightarrow> string \<Rightarrow>
   (error + jval) \<times> gitHubStorage" where
  "saveEmail L now emailId randomBytes salt g folderId emailData ip =
     (case checkRateLimit now (security g) ip ''CREATE_EMAIL'' of
        (Inl e, sm) \<Rightarrow> (Inl e, g\<lparr>security := sm\<rparr>)
      | (Inr allowed, sm) \<Rightarrow>
          (let g1 = g\<lparr>security := sm\<rparr> in
           if \<not> allowed then (Inl RateLimitExceededEmailCreation, g1)
           else
             (case loadData (generateChecksum L) (remote g1) (activeFolderPath folderId) of
                Inl e \<Rightarrow> (Inl e, g1)
              | Inr folder \<Rightarrow>
                  if \<not> truthy folder then (Inl FolderNotFound, g1)
                  else
                    (let password = generateSecurePassword randomBytes;
                         m = emailMetadata L now emailId (hashPassword L salt password)
                               folderId emailData ip
                     in case saveData (generateChecksum L) (remote g1)
                               (emailPath folderId emailId) m of
                          (Inl e, r1) \<Rightarrow> (Inl e, g1\<lparr>remote := r1\<rparr>)
                        | (Inr u, r1) \<Rightarrow>
                            (case field emailData ''attachments'' of
                               Some (JArr (a # as)) \<Rightarrow>
                                 (case saveAttachments (generateChecksum L) r1
                                         (''data/attachments/'' @ folderId @ ''/'' @ emailId)
                                         (a # as) of
                                    (Inl e, r2) \<Rightarrow> (Inl e, g1\<lparr>remote := r2\<rparr>)
                                  | (Inr u', r2) \<Rightarrow>
                                      (Inr (set_field m ''password'' (JStr password)),
                                       g1\<lparr>remote := r2\<rparr>))
                             | _ \<Rightarrow>
                                 (Inr (set_field m ''password'' (JStr password)),
                                  g1\<lparr>remote := r1\<rparr>))))))"

subsection \<open>Deleting\<close>

text \<open>
  \<^verbatim>\<open>deleteFile(path)\<close>: read the token, delete under it; a 404 at either step is not an
  error. A directory listing carries no \<^verbatim>\<open>sha\<close>, so the delete is sent without one.
\<close>

definition deleteFile :: "repo \<Rightarrow> string \<Rightarrow> (error + unit) \<times> repo" where
  "deleteFile r path =
     (case GET r path of
        Inl e \<Rightarrow> if message_includes e 404 then (Inr (), r) else (Inl e, r)
      | Inr resp \<Rightarrow>
          (case DELETE r path
                  (case resp of FileResponse b \<Rightarrow> Some (sha b) | DirResponse ns \<Rightarrow> None) of
             Inr r' \<Rightarrow> (Inr (), r')
           | Inl e \<Rightarrow> if message_includes e 404 then (Inr (), r) else (Inl e, r)))"

text \<open>The items of a directory, each deleted with its error caught and logged.\<close>

fun deleteItems :: "repo \<Rightarrow> string \<Rightarrow> string list \<Rightarrow> repo" where
  "deleteItems r path [] = r"
| "deleteItems r path (item # items) =
     deleteItems (snd (deleteFile r (path @ ''/'' @ item))) path items"

definition deletePath :: "repo \<Rightarrow> string \<Rightarrow> (error + unit) \<times> repo" where
  "deletePath r path =
     (case GET r path of
        Inl e \<Rightarrow> if message_includes e 404 then (Inr (), r) else (Inl e, r)
      | Inr (DirResponse items) \<Rightarrow> (Inr (), deleteItems r path items)
      | Inr (FileResponse b) \<Rightarrow>
          (case deleteFile r path of
             (Inl e, r') \<Rightarrow> if message_includes e 404 then (Inr (), r') else (Inl e, r')
           | (Inr u, r') \<Rightarrow> (Inr (), r')))"

text \<open>
  The attempts of \<^verbatim>\<open>deleteFolderContentsWithRetry\<close> for one path; \<open>Suc 0\<close> attempts
  left is the last attempt, whose error is thrown unless it is a 404.
\<close>

fun deletePathWithRetry :: "nat \<Rightarrow> repo \<Rightarrow> string \<Rightarrow> (error + unit) \<times> repo" where
  "deletePathWithRetry 0 r path = (Inr (), r)"
| "deletePathWithRetry (Suc attempts) r path =
     (case deletePath r path of
        (Inr u, r') \<Rightarrow> (Inr (), r')
      | (Inl e, r') \<Rightarrow>
          if attempts = 0 \<and> \<not> message_includes e 404 then (Inl e, r')
          else deletePathWithRetry attempts r' path)"

fun deletePaths :: "repo \<Rightarrow> string list \<Rightarrow> (error + unit) \<times> repo" where
  "deletePaths r [] = (Inr (), r)"
| "deletePaths r (path # paths) =
     (case deletePathWithRetry 3 r path of
        (Inl e, r') \<Rightarrow> (Inl e, r')
      | (Inr u, r') \<Rightarrow> deletePaths r' paths)"

definition deleteFolderContentsWithRetry :: "repo \<Rightarrow> string \<Rightarrow> (error + unit) \<times> repo" where
  "deleteFolderContentsWithRetry r folderId =
     deletePaths r
       [''data/emails/'' @ folderId,
        ''data/attachments/'' @ folderId,
        ''data/emails/'' @ folderId @ ''/versions'']"

text \<open>\<^verbatim>\<open>name.endsWith(suffix)\<close> and \<^verbatim>\<open>a === b\<close> (objects and arrays are never identical).\<close>

definition endsWith :: "string \<Rightarrow> string \<Rightarrow> bool" where
  "endsWith s suffix =
     (length suffix \<le> length s \<and> drop (length s - length suffix) s = suffix)"

fun strictly_equal :: "jval option \<Rightarrow> jval option \<Rightarrow> bool" where
  "strictly_equal None None = True"
| "strictly_equal (Some (JArr xs)) _ = False"
| "strictly_equal (Some (JObj kvs)) _ = False"
| "strictly_equal (Some a) (Some b) = (a = b)"
| "strictly_equal _ _ = False"

text \<open>
  The clean-up of the share links in \<^verbatim>\<open>deleteFolder\<close>: every link document that
  names the folder is deleted; every failure is caught and logged.
\<close>

fun deleteLinks :: "(jval \<Rightarrow> string) \<Rightarrow> repo \<Rightarrow> string \<Rightarrow> string list \<Rightarrow> repo" where
  "deleteLinks H r folderId [] = r"
| "deleteLinks H r folderId (name # names) =
     (let path = ''data/metadata/links/'' @ name;
          r' = (if endsWith name ''.json'' then
                  (case loadData H r path of
                     Inr (Some linkData) \<Rightarrow>
                       if truthy (Some linkData) \<and>
                          strictly_equal (field linkData ''folderId'') (Some (JStr folderId))
                       then snd (deleteFile r path) else r
                   | _ \<Rightarrow> r)
                else r)
      in deleteLinks H r' folderId names)"

definition cleanUpShareLinks :: "(jval \<Rightarrow> string) \<Rightarrow> repo \<Rightarrow> string \<Rightarrow> repo" where
  "cleanUpShareLinks H r folderId =
     (case GET r ''data/metadata/links'' of
        Inr (DirResponse linkFiles) \<Rightarrow> deleteLinks H r folderId linkFiles
      | _ \<Rightarrow> r)"

text \<open>
  \<^verbatim>\<open>deleteFolder(folderId, adminPassword)\<close>: the two inputs are required; the folder
  is looked up among the silent folders, then among the active ones; the password is
  verified against the stored \<^verbatim>\<open>adminHash\<close> and \<^verbatim>\<open>adminSalt\<close>; only then the
  contents, the folder document and the share links are deleted.
\<close>

definition deleteFolder ::
  "'w library \<Rightarrow> gitHubStorage \<Rightarrow> string \<Rightarrow> string \<Rightarrow> (error + bool) \<times> gitHubStorage" where
  "deleteFolder L g folderId adminPassword =
     (if folderId = [] then (Inl FolderIdRequired, g)
      else if adminPassword = [] then (Inl AdminPasswordRequired, g)
      else
        (case (case loadData (generateChecksum L) (remote g) (silentFolderPath folderId) of
                 Inl e \<Rightarrow> Inl e
               | Inr silent \<Rightarrow>
                   if truthy silent then Inr (silent, silentFolderPath folderId)
                   else
                     (case loadData (generateChecksum L) (remote g) (activeFolderPath folderId) of
                        Inl e \<Rightarrow> Inl e
                      | Inr active \<Rightarrow>
                          if truthy active then Inr (active, activeFolderPath folderId)
                          else Inl FolderNotFound)) of
           Inl e \<Rightarrow> (Inl e, g)
         | Inr (None, folderPath) \<Rightarrow> (Inl FolderNotFound, g)
         | Inr (Some folder, folderPath) \<Rightarrow>
             if \<not> verifyStoredPassword L adminPassword folder ''adminHash'' ''adminSalt''
             then (Inl InvalidFolderAdminPassword, g)
             else
               (case deleteFolderContentsWithRetry (remote g) folderId of
                  (Inl e, r1) \<Rightarrow> (Inl e, g\<lparr>remote := r1\<rparr>)
                | (Inr u, r1) \<Rightarrow>
                    (case deleteFile r1 folderPath of
                       (Inl e, r2) \<Rightarrow> (Inl e, g\<lparr>remote := r2\<rparr>)
                     | (Inr u', r2) \<Rightarrow>
                         (Inr True,
                          g\<lparr>remote := cleanUpShareLinks (generateChecksum L) r2 folderId\<rparr>)))))"

subsection \<open>The approval of a silent folder\<close>

text \<open>
  \<^verbatim>\<open>loadEmails(folderId)\<close>: the documents of the \<^verbatim>\<open>.json\<close> files of the folder's
  directory that load; a file that fails to load is skipped, and no error leaves the
  method.
\<close>

definition loadEmails :: "(jval \<Rightarrow> string) \<Rightarrow> repo \<Rightarrow> string \<Rightarrow> jval list" where
  "loadEmails H r folderId =
     (case GET r (''data/emails/'' @ folderId) of
        Inr (DirResponse fileNames) \<Rightarrow>
          List.map_filter
            (\<lambda>name. case loadData H r (''data/emails/'' @ folderId @ ''/'' @ name) of
                       Inr (Some email) \<Rightarrow> Some email
                     | _ \<Rightarrow> None)
            (filter (\<lambda>name. endsWith name ''.json'') fileNames)
      | _ \<Rightarrow> [])"

text \<open>The \<^verbatim>\<open>Promise.all\<close> of loads in \<^verbatim>\<open>loadEmailVersions\<close>: one failure fails all.\<close>

fun loadAll :: "(jval \<Rightarrow> string) \<Rightarrow> repo \<Rightarrow> string list \<Rightarrow> error + jval option list" where
  "loadAll H r [] = Inr []"
| "loadAll H r (path # paths) =
     (case loadData H r path of
        Inl e \<Rightarrow> Inl e
      | Inr v \<Rightarrow> (case loadAll H r paths of Inl e \<Rightarrow> Inl e | Inr vs \<Rightarrow> Inr (v # vs)))"

text \<open>
  \<^verbatim>\<open>loadEmailVersions(folderId, emailId)\<close>: the versions of the folder that name the
  email as their original. The source sorts them by version number; the order is left
  as listed here, since only their number is used below.
\<close>

definition loadEmailVersions ::
  "(jval \<Rightarrow> string) \<Rightarrow> repo \<Rightarrow> string \<Rightarrow> jval option \<Rightarrow> error + jval list" where
  "loadEmailVersions H r folderId emailId =
     (case GET r (''data/emails/'' @ folderId @ ''/versions'') of
        Inl e \<Rightarrow> if message_includes e 404 then Inr [] else Inl e
      | Inr (FileResponse b) \<Rightarrow> Inl TypeError
      | Inr (DirResponse fileNames) \<Rightarrow>
          (case loadAll H r
                  (map (\<lambda>name. ''data/emails/'' @ folderId @ ''/versions/'' @ name)
                     (filter (\<lambda>name. endsWith name ''.json'') fileNames)) of
             Inl e \<Rightarrow> if message_includes e 404 then Inr [] else Inl e
           | Inr versions \<Rightarrow>
               Inr (List.map_filter
                      (\<lambda>v. case v of
                              Some d \<Rightarrow>
                                if truthy (Some d) \<and>
                                   strictly_equal (field d ''originalEmailId'') emailId
                                then Some d else None
                            | None \<Rightarrow> None)
                      versions)))"

fun countVersions ::
  "(jval \<Rightarrow> string) \<Rightarrow> repo \<Rightarrow> string \<Rightarrow> jval list \<Rightarrow> error + nat" where
  "countVersions H r folderId [] = Inr 0"
| "countVersions H r folderId (email # emails) =
     (case loadEmailVersions H r folderId (field email ''id'') of
        Inl e \<Rightarrow> Inl e
      | Inr versions \<Rightarrow>
          (case countVersions H r folderId emails of
             Inl e \<Rightarrow> Inl e
           | Inr n \<Rightarrow> Inr (length versions + n)))"

text \<open>\<^verbatim>\<open>email.likes || 0\<close>, for a number of likes.\<close>

definition likesOrZero :: "jval \<Rightarrow> int" where
  "likesOrZero email = (case field email ''likes'' of Some (JNum n) \<Rightarrow> n | _ \<Rightarrow> 0)"

text \<open>
  \<^verbatim>\<open>getFolderInteractions(folderId)\<close>: emails, plus their likes, plus their versions;
  when loading the versions throws, the error is logged and the count so far returned.
\<close>

definition getFolderInteractions :: "(jval \<Rightarrow> string) \<Rightarrow> repo \<Rightarrow> string \<Rightarrow> int" where
  "getFolderInteractions H r folderId =
     (let emails = loadEmails H r folderId;
          interactionCount = int (length emails) + sum_list (map likesOrZero emails)
      in case countVersions H r folderId emails of
           Inl e \<Rightarrow> interactionCount
         | Inr n \<Rightarrow> interactionCount + int n)"

definition TIME_TO_APPROVE :: int where
  "TIME_TO_APPROVE = 24 * 60 * 60 * 1000"

definition MIN_INTERACTIONS :: int where
  "MIN_INTERACTIONS = 5"

definition approvedFolder :: "jval \<Rightarrow> int \<Rightarrow> jval" where
  "approvedFolder silentFolder now =
     set_field
       (set_field (set_field silentFolder ''status'' (JStr ''active''))
          ''approvedAt'' (JNum now))
       ''updatedAt'' (JNum now)"

text \<open>
  \<^verbatim>\<open>checkFolderApproval(folderId)\<close>. Without a silent folder the result is
  \<^verbatim>\<open>null\<close>. A folder of age 24 hours or with five interactions is saved among the
  active folders with status \<^verbatim>\<open>active\<close>, its silent copy is deleted, and the active
  document is loaded and returned; otherwise the silent folder is returned.
\<close>

definition checkFolderApproval ::
  "(jval \<Rightarrow> string) \<Rightarrow> int \<Rightarrow> gitHubStorage \<Rightarrow> string \<Rightarrow> (error + jval option) \<times> gitHubStorage" where
  "checkFolderApproval H now g folderId =
     (case loadData H (remote g) (silentFolderPath folderId) of
        Inl e \<Rightarrow> (Inl e, g)
      | Inr None \<Rightarrow> (Inr None, g)
      | Inr (Some silentFolder) \<Rightarrow>
          if \<not> truthy (Some silentFolder) then (Inr None, g)
          else
            (let oldEnough = (case field silentFolder ''createdAt'' of
                                Some (JNum t) \<Rightarrow> TIME_TO_APPROVE \<le> now - t
                              | _ \<Rightarrow> False);
                 interactions = getFolderInteractions H (remote g) folderId
             in if oldEnough \<or> MIN_INTERACTIONS \<le> interactions
                then
                  (case saveData H (remote g) (activeFolderPath folderId)
                          (approvedFolder silentFolder now) of
                     (Inl e, r1) \<Rightarrow> (Inl e, g\<lparr>remote := r1\<rparr>)
                   | (Inr u, r1) \<Rightarrow>
                       (case deleteFile r1 (silentFolderPath folderId) of
                          (Inl e, r2) \<Rightarrow> (Inl e, g\<lparr>remote := r2\<rparr>)
                        | (Inr u', r2) \<Rightarrow>
                            (loadData H r2 (activeFolderPath folderId), g\<lparr>remote := r2\<rparr>)))
                else (Inr (Some silentFolder), g)))"

subsection \<open>Creating a folder\<close>

text \<open>\<^verbatim>\<open>path.split('/').slice(0, -1).join('/')\<close>.\<close>

definition parentOf :: "string \<Rightarrow> string" where
  "parentOf path = rev (drop 1 (dropWhile (\<lambda>c. c \<noteq> CHR ''/'') (rev path)))"

text \<open>
  \<^verbatim>\<open>ensureDirectoryExists(path)\<close>. A directory that exists is confirmed. For a path
  that answers 404 the method turns to the parent and then calls itself on the same
  path again, without having created anything: it returns only if the path has
  appeared, so the method is partial, and \<open>None\<close> is the call that never returns.
\<close>

partial_function (option) ensureDirectoryExists ::
  "repo \<Rightarrow> string \<Rightarrow> ((error + bool) \<times> repo) option" where
  "ensureDirectoryExists r path =
     (case (case GET r path of
              Inl e \<Rightarrow> Inl e
            | Inr (DirResponse ns) \<Rightarrow> Inr r
            | Inr (FileResponse b) \<Rightarrow> PUT r (path @ ''/.gitkeep'') (JStr '''') None) of
        Inr r' \<Rightarrow> Some (Inr True, r')
      | Inl e \<Rightarrow>
          if message_includes e 404 then
            (if parentOf path \<noteq> [] \<and> parentOf path \<noteq> ''data'' then
               Option.bind (ensureDirectoryExists r (parentOf path))
                 (\<lambda>(res, r1). case res of
                                 Inl e' \<Rightarrow> Some (Inl e', r1)
                               | Inr ok \<Rightarrow> ensureDirectoryExists r1 path)
             else ensureDirectoryExists r path)
          else Some (Inl e, r))"

declare ensureDirectoryExists.simps [code]

definition directories :: "string list" where
  "directories =
     [''data'', ''data/folders'', ''data/emails'', ''data/attachments'', ''data/silent'',
      ''data/silent/folders'', ''data/blacklist'', ''data/maliciousips'', ''data/metadata'',
      ''data/metadata/links'']"

fun ensureDirectories :: "repo \<Rightarrow> string list \<Rightarrow> ((error + unit) \<times> repo) option" where
  "ensureDirectories r [] = Some (Inr (), r)"
| "ensureDirectories r (dir # dirs) =
     Option.bind (ensureDirectoryExists r dir)
       (\<lambda>(res, r'). case res of
                      Inl e \<Rightarrow> Some (Inl e, r')
                    | Inr ok \<Rightarrow> ensureDirectories r' dirs)"

definition initializeRepository :: "gitHubStorage \<Rightarrow> ((error + unit) \<times> gitHubStorage) option" where
  "initializeRepository g =
     (if initialized g then Some (Inr (), g)
      else
        Option.bind (ensureDirectories (remote g) directories)
          (\<lambda>(res, r'). case res of
                         Inl e \<Rightarrow> Some (Inl e, g\<lparr>remote := r'\<rparr>)
                       | Inr u \<Rightarrow> Some (Inr (), g\<lparr>remote := r', initialized := True\<rparr>)))"

definition checkPathExists :: "repo \<Rightarrow> string \<Rightarrow> error + bool" where
  "checkPathExists r path =
     (case GET r path of
        Inr resp \<Rightarrow> Inr True
      | Inl e \<Rightarrow> if message_includes e 404 then Inr False else Inl e)"

text \<open>The loop over \<^verbatim>\<open>baseDirectories\<close> in \<^verbatim>\<open>createFolder\<close>.\<close>

fun ensureBaseDirectories :: "repo \<Rightarrow> string list \<Rightarrow> ((error + unit) \<times> repo) option" where
  "ensureBaseDirectories r [] = Some (Inr (), r)"
| "ensureBaseDirectories r (dir # dirs) =
     (case checkPathExists r dir of
        Inl e \<Rightarrow> Some (Inl e, r)
      | Inr True \<Rightarrow> ensureBaseDirectories r dirs
      | Inr False \<Rightarrow>
          Option.bind (ensureDirectoryExists r dir)
            (\<lambda>(res, r'). case res of
                           Inl e \<Rightarrow> Some (Inl e, r')
                         | Inr ok \<Rightarrow> ensureBaseDirectories r' dirs))"

text \<open>What one call of \<^verbatim>\<open>createFolder\<close> draws from the clock and the random sources.\<close>

record 'w draws =
  clock :: int
  uuid :: string
  passwordBytes :: "nat list"
  passwordSalt :: 'w
  shareToken :: string
  linkSalt :: 'w
  origin :: string

text \<open>
  The object literal \<^verbatim>\<open>folderMetadata\<close> of \<^verbatim>\<open>createFolder\<close>, with its empty
  checksum, and the document after the checksum is set.
\<close>

definition folderDraft :: "'w library \<Rightarrow> 'w draws \<Rightarrow> jval \<Rightarrow> string \<Rightarrow> jval" where
  "folderDraft L D folderData ip =
     (let hs = hashPassword L (passwordSalt D) (generateSecurePassword (passwordBytes D))
      in JObj ([(''id'', JStr (uuid D))]
               @ property ''name'' (field folderData ''name'')
               @ property ''targetEmail'' (field folderData ''targetEmail'')
               @ [(''createdAt'', JNum (clock D)), (''updatedAt'', JNum (clock D)),
                  (''status'', JStr ''silent''),
                  (''creatorIP'', JStr (SHA256 L ip)),
                  (''adminHash'', JStr (fst hs)), (''adminSalt'', JStr (snd hs)),
                  (''emails'', JArr []), (''emailsLoaded'', JBool True),
                  (''checksum'', JStr [])]))"

definition folderMetadata :: "'w library \<Rightarrow> 'w draws \<Rightarrow> jval \<Rightarrow> string \<Rightarrow> jval" where
  "folderMetadata L D folderData ip =
     set_field (folderDraft L D folderData ip) ''checksum''
       (JStr (generateChecksum L (folderDraft L D folderData ip)))"

definition linkMetadata :: "'w library \<Rightarrow> 'w draws \<Rightarrow> jval \<Rightarrow> jval" where
  "linkMetadata L D folderData =
     JObj [(''folderId'', JStr (uuid D)),
           (''encryptedData'',
            JStr (encryptContent L (linkSalt D)
                    (JObj (property ''name'' (field folderData ''name'')
                           @ [(''createdAt'', JNum (clock D))]))
                    (shareToken D))),
           (''createdAt'', JNum (clock D))]"

text \<open>
  \<^verbatim>\<open>createFolder(folderData, ip)\<close>, the body of its \<^verbatim>\<open>try\<close>: initialise the
  repository if that was not done, check the rate limit, make sure the two base
  directories exist, validate the input, write the folder document under the silent
  path and the share link under its token, both with a plain \<^verbatim>\<open>PUT\<close> without token,
  and return the folder with the admin password and the link.
\<close>

definition createFolder_body ::
  "'w library \<Rightarrow> 'w draws \<Rightarrow> gitHubStorage \<Rightarrow> jval \<Rightarrow> string \<Rightarrow>
   ((error + jval) \<times> gitHubStorage) option" where
  "createFolder_body L D g folderData ip =
     Option.bind (initializeRepository g)
       (\<lambda>(res0, g0). case res0 of
          Inl e \<Rightarrow> Some (Inl e, g0)
        | Inr u \<Rightarrow>
            (case checkRateLimit (clock D) (security g0) ip ''CREATE_FOLDER'' of
               (Inl e, sm) \<Rightarrow> Some (Inl e, g0\<lparr>security := sm\<rparr>)
             | (Inr allowed, sm) \<Rightarrow>
                 if \<not> allowed
                 then Some (Inl RateLimitExceededFolderCreation, g0\<lparr>security := sm\<rparr>)
                 else
                   Option.bind
                     (ensureBaseDirectories (remote g0)
                        [''data/silent/folders'', ''data/metadata/links''])
                     (\<lambda>(res1, r1).
                        (let g1 = g0\<lparr>security := sm, remote := r1\<rparr> in
                         case res1 of
                           Inl e \<Rightarrow> Some (Inl e, g1)
                         | Inr u' \<Rightarrow>
                             if \<not> truthy (field folderData ''name'') \<or>
                                \<not> truthy (field folderData ''targetEmail'')
                             then Some (Inl FolderNameAndTargetEmailRequired, g1)
                             else
                               (case PUT r1 (silentFolderPath (uuid D))
                                       (folderMetadata L D folderData ip) None of
                                  Inl e \<Rightarrow> Some (Inl e, g1)
                                | Inr r2 \<Rightarrow>
                                    (case PUT r2 (linkPath (shareToken D))
                                            (linkMetadata L D folderData) None of
                                       Inl e \<Rightarrow> Some (Inl e, g1\<lparr>remote := r2\<rparr>)
                                     | Inr r3 \<Rightarrow>
                                         Some
                                           (Inr (set_field
                                                   (set_field
                                                      (set_field (folderMetadata L D folderData ip)
                                                         ''adminPassword''
                                                         (JStr (generateSecurePassword
                                                                  (passwordBytes D))))
                                                      ''shareToken'' (JStr (shareToken D)))
                                                   ''shareableLink''
                                                   (JStr (origin D @ ''/share/'' @ shareToken D))),
                                            g1\<lparr>remote := r3\<rparr>)))))))"

text \<open>The \<^verbatim>\<open>catch\<close> of \<^verbatim>\<open>createFolder\<close> wraps every error.\<close>

definition createFolder ::
  "'w library \<Rightarrow> 'w draws \<Rightarrow> gitHubStorage \<Rightarrow> jval \<Rightarrow> string \<Rightarrow>
   ((error + jval) \<times> gitHubStorage) option" where
  "createFolder L D g folderData ip =
     map_option
       (\<lambda>(res, g'). (case res of Inl e \<Rightarrow> Inl (FailedToCreateFolder e) | Inr v \<Rightarrow> Inr v, g'))
       (createFolder_body L D g folderData ip)"

subsection \<open>A stand-in library and a small repository for running the methods\<close>

text \<open>
  To run the methods on concrete inputs the library needs values. The stand-in below
  prints a document as text and marks its input where CryptoJS would hash, derive or
  encrypt, so that different inputs give different outputs, as they do (but for
  collisions) with the real functions. It is used in closed examples only; no theorem
  about the methods depends on it.
\<close>

fun digits :: "nat \<Rightarrow> string" where
  "digits n =
     (if n < 10 then [''0123456789'' ! n]
      else digits (n div 10) @ [''0123456789'' ! (n mod 10)])"

declare digits.simps [simp del]

fun print_jval :: "jval \<Rightarrow> string" where
  "print_jval JNull = ''null''"
| "print_jval (JBool b) = (if b then ''true'' else ''false'')"
| "print_jval (JNum n) = (if n < 0 then ''-'' @ digits (nat (- n)) else digits (nat n))"
| "print_jval (JStr s) = [CHR 0x22] @ s @ [CHR 0x22]"
| "print_jval (JArr xs) = ''['' @ concat (map (\<lambda>x. print_jval x @ '','') xs) @ '']''"
| "print_jval (JObj kvs) =
     ''{'' @ concat (map (\<lambda>(k, v). [CHR 0x22] @ k @ [CHR 0x22] @ '':'' @ print_jval v @ '','') kvs)
     @ ''}''"

definition demo_library :: "string library" where
  "demo_library =
     \<lparr>SHA256 = (\<lambda>s. ''sha256:'' @ s),
      PBKDF2 = (\<lambda>password salt. ''pbkdf2:'' @ salt @ '':'' @ password),
      Hex_stringify = (\<lambda>salt. salt),
      Hex_parse = (\<lambda>hex. hex),
      AES_encrypt = (\<lambda>salt text password. ''aes:'' @ salt @ '':'' @ password @ '':'' @ text),
      AES_decrypt = (\<lambda>cipher password. Inl DecodeError),
      JSON_stringify = print_jval,
      JSON_parse = (\<lambda>text. Inl DecodeError)\<rparr>"

definition demo_draws :: "string draws" where
  "demo_draws =
     \<lparr>clock = 1000, uuid = ''f1'',
      passwordBytes = [0, 1, 2, 3, 4, 5, 6, 7, 8, 9, 10, 11, 12, 13, 14, 15, 16, 17, 18, 19],
      passwordSalt = ''a1b2'', shareToken = ''0123456789abcdef0123456789abcdef'',
      linkSalt = ''c3d4'', origin = ''https://example.org''\<rparr>"

definition demo_folderData :: jval where
  "demo_folderData = JObj [(''name'', JStr ''Test''), (''targetEmail'', JStr ''a@b.com'')]"

text \<open>A repository with the directory skeleton in place, each directory kept by a marker file.\<close>

definition demo_repo :: repo where
  "demo_repo =
     \<lparr>files =
        [(''data/folders/.gitkeep'', \<lparr>sha = 1, content = JStr []\<rparr>),
         (''data/emails/.gitkeep'', \<lparr>sha = 2, content = JStr []\<rparr>),
         (''data/attachments/.gitkeep'', \<lparr>sha = 3, content = JStr []\<rparr>),
         (''data/silent/folders/.gitkeep'', \<lparr>sha = 4, content = JStr []\<rparr>),
         (''data/blacklist/.gitkeep'', \<lparr>sha = 5, content = JStr []\<rparr>),
         (''data/maliciousips/.gitkeep'', \<lparr>sha = 6, content = JStr []\<rparr>),
         (''data/metadata/links/.gitkeep'', \<lparr>sha = 7, content = JStr []\<rparr>)],
      nextSha = 8\<rparr>"

text \<open>
  The repository after folder \<open>f1\<close> was created in it and five emails were put below
  it, each as \<^verbatim>\<open>saveEmail\<close> builds it.
\<close>

definition demo_email :: "string \<Rightarrow> jval" where
  "demo_email emailId =
     emailMetadata demo_library 1500 emailId
       (hashPassword demo_library ''e5f6'' ''secret'') ''f1''
       (JObj [(''subject'', JStr ''Hello''), (''body'', JStr ''World'')]) ''1.2.3.4''"

definition demo_folder_repo :: repo where
  "demo_folder_repo =
     \<lparr>files = files demo_repo @
        [(''data/silent/folders/f1.json'',
          \<lparr>sha = 8, content = folderMetadata demo_library demo_draws demo_folderData ''1.2.3.4''\<rparr>),
         (''data/metadata/links/0123456789abcdef0123456789abcdef.json'',
          \<lparr>sha = 9, content = linkMetadata demo_library demo_draws demo_folderData\<rparr>),
         (''data/emails/f1/e1.json'', \<lparr>sha = 10, content = demo_email ''e1''\<rparr>),
         (''data/emails/f1/e2.json'', \<lparr>sha = 11, content = demo_email ''e2''\<rparr>),
         (''data/emails/f1/e3.json'', \<lparr>sha = 12, content = demo_email ''e3''\<rparr>),
         (''data/emails/f1/e4.json'', \<lparr>sha = 13, content = demo_email ''e4''\<rparr>),
         (''data/emails/f1/e5.json'', \<lparr>sha = 14, content = demo_email ''e5''\<rparr>)],
      nextSha = 15\<rparr>"

definition demo_storage :: "repo \<Rightarrow> gitHubStorage" where
  "demo_storage r =
     \<lparr>remote = r, security = \<lparr>rateLimitCache = Map.empty, blacklistedIPs = {}\<rparr>,
      initialized = False\<rparr>"

subsection \<open>Basic facts about documents and the repository\<close>

lemma field_set_field_same [simp]: "field (set_field d k v) k = Some v"
  by (cases d) (simp_all add: update_conv')

lemma field_set_field_other [simp]:
  "k' \<noteq> k \<Longrightarrow> field (set_field (JObj kvs) k v) k' = map_of kvs k'"
  by (simp add: update_conv')

lemma field_Some_obj: "field d k = Some v \<Longrightarrow> \<exists>kvs. d = JObj kvs"
  by (cases d) simp_all

lemma files_write_file [simp]:
  "map_of (files (write_file r path d)) path = Some \<lparr>sha = nextSha r, content = d\<rparr>"
  by (simp add: write_file_def update_conv')

lemma files_write_file_other [simp]:
  "p \<noteq> path \<Longrightarrow> map_of (files (write_file r path d)) p = map_of (files r) p"
  by (simp add: write_file_def update_conv')

lemma PUT_Inr: "PUT r path d token = Inr r' \<Longrightarrow> r' = write_file r path d"
  by (auto simp: PUT_def split: option.splits if_splits)

lemma saveData_put_Inr:
  "saveData_put n le r path d token = (Inr u, r') \<Longrightarrow> le \<noteq> None \<or> 0 < n \<Longrightarrow>
   r' = write_file r path d"
proof (induction n arbitrary: le)
  case 0
  then show ?case by (auto split: option.splits)
next
  case (Suc n)
  then show ?case
    by (auto split: sum.splits if_splits dest: PUT_Inr)
qed


lemma saveData_Inr:
  "saveData H r path d = (Inr u, r') \<Longrightarrow> r' = write_file r path d"
  by (auto simp: saveData_def split: sum.splits dest: saveData_put_Inr)


text \<open>Unfolding rules for running the methods on a given repository.\<close>

lemmas run_defs =
  loadData_def GET_def saveData_def saveData_existing_def PUT_def DELETE_def write_file_def
  blocked_def
  entries_def child_of_def List.map_filter_def Let_def numeral_3_eq_3
  updateEmailLikes_def updateEmailLikes_read_def emailPath_def
  overlapping_updateEmailLikes_def

subsection \<open>Integrity checking on load\<close>

lemma loadData_file:
  "map_of (files r) path = Some b \<Longrightarrow> content b \<noteq> JNull \<Longrightarrow>
   loadData H r path =
     (if truthy (field (content b) ''checksum'') \<and>
         field (content b) ''checksum'' \<noteq>
           Some (JStr (H (set_field (content b) ''checksum'' (JStr ''''))))
      then Inl DataIntegrityCheckFailed else Inr (Some (content b)))"
  by (simp add: loadData_def GET_def Let_def)

text \<open>
  C9. \<^verbatim>\<open>loadData\<close> verifies a document only when its checksum field is truthy: a
  stored document whose checksum is absent, \<^verbatim>\<open>null\<close> or the empty string is handed to
  the caller as it is, whatever the digest function would say about it.
\<close>

theorem loadData_skips_falsy_checksum:
  assumes "map_of (files r) path = Some b"
    and "content b = JObj kvs"
    and "map_of kvs ''checksum'' \<in> {None, Some JNull, Some (JStr '''')}"
  shows "loadData H r path = Inr (Some (content b))"
proof -
  have "\<not> truthy (field (content b) ''checksum'')"
    using assms(2,3) by auto
  moreover have "content b \<noteq> JNull"
    using assms(2) by simp
  ultimately show ?thesis
    using assms(1) by (simp add: loadData_file)
qed

theorem loadData_skips_falsy_checksum_witness:
  "loadData (\<lambda>d. ''0f'')
     \<lparr>files = [(''data/emails/f/e.json'',
                 \<lparr>sha = 7, content = JObj [(''id'', JStr ''e''), (''likes'', JNum 3)]\<rparr>)],
      nextSha = 8\<rparr>
     ''data/emails/f/e.json''
   = Inr (Some (JObj [(''id'', JStr ''e''), (''likes'', JNum 3)]))"
  using loadData_skips_falsy_checksum
    [of "\<lparr>files = [(''data/emails/f/e.json'',
                 \<lparr>sha = 7, content = JObj [(''id'', JStr ''e''), (''likes'', JNum 3)]\<rparr>)],
      nextSha = 8\<rparr>"
        "''data/emails/f/e.json''"
        "\<lparr>sha = 7, content = JObj [(''id'', JStr ''e''), (''likes'', JNum 3)]\<rparr>"
        "[(''id'', JStr ''e''), (''likes'', JNum 3)]" "\<lambda>d. ''0f''"]
  by simp

subsection \<open>Likes\<close>


text \<open>
  \<^verbatim>\<open>saveData\<close> never sends a second \<^verbatim>\<open>PUT\<close> after a 409: the conflict is thrown to
  the caller, and \<^verbatim>\<open>updateEmailLikes\<close> has no handler that would load the email
  again.
\<close>

lemma saveData_put_conflict:
  "PUT r path d token = Inl (GitHubApiError 409) \<Longrightarrow>
   saveData_put (Suc n) le r path d token = (Inl (GitHubApiError 409), r)"
  by simp

text \<open>
  The integrity check of \<^verbatim>\<open>saveData\<close> takes the digest of the stored document with its
  checksum in place, where \<^verbatim>\<open>loadData\<close> empties the field first and the writers
  computed it before the field was set. A stored document with a non-empty checksum
  therefore blocks every later \<^verbatim>\<open>saveData\<close> to its path, unless the digest function
  has a fixed point at that document.
\<close>

lemma saveData_rejects_checksummed_document:
  assumes "map_of (files r) path = Some b"
    and "field (content b) ''checksum'' = Some (JStr c)" and "c \<noteq> []"
    and "H (content b) \<noteq> c"
  shows "saveData H r path d = (Inl DataIntegrityCheckFailed, r)"
proof -
  have "content b \<noteq> JNull"
    using assms(2) by auto
  then show ?thesis
    using assms by (simp add: saveData_def saveData_existing_def GET_def Let_def)
qed




subsection \<open>Failures of the storage methods\<close>














subsection \<open>The rate limiter\<close>

lemmas sec_defs = checkRateLimit_def RATE_LIMITS_def Let_def

lemma checkRateLimit_blacklisted:
  "ip \<in> blacklistedIPs sm \<Longrightarrow> checkRateLimit now sm ip action = (Inr False, sm)"
  by (simp add: checkRateLimit_def)

lemma checkRateLimit_False_iff:
  "fst (checkRateLimit now sm ip action) = Inr False \<longleftrightarrow> ip \<in> blacklistedIPs sm"
  by (auto simp: checkRateLimit_def Let_def split: option.splits prod.splits)

lemma checkRateLimit_blacklist_unchanged:
  "blacklistedIPs (snd (checkRateLimit now sm ip action)) = blacklistedIPs sm"
  by (auto simp: checkRateLimit_def Let_def split: option.splits prod.splits)

lemma checkRateLimit_calls_blacklisted:
  "ip \<in> blacklistedIPs sm \<Longrightarrow> i < length cs \<Longrightarrow> fst (snd (cs ! i)) = ip \<Longrightarrow>
   fst (checkRateLimit_calls sm cs) ! i = Inr False"
proof (induction cs arbitrary: sm i)
  case Nil
  then show ?case by simp
next
  case (Cons c cs)
  obtain now ip' action where c: "c = (now, ip', action)" by (cases c) auto
  obtain res sm' where step: "checkRateLimit now sm ip' action = (res, sm')"
    by (cases "checkRateLimit now sm ip' action") auto
  have keep: "ip \<in> blacklistedIPs sm'"
    using checkRateLimit_blacklist_unchanged [of now sm ip' action] step Cons.prems(1) by simp
  show ?case
  proof (cases i)
    case 0
    then show ?thesis
      using Cons.prems c step checkRateLimit_blacklisted [of ip sm now action]
      by (simp split: prod.splits)
  next
    case (Suc j)
    then show ?thesis
      using Cons.prems c step Cons.IH [OF keep, of j]
      by (auto split: prod.splits)
  qed
qed

text \<open>
  At the limit the call throws: with the address not blacklisted, the action limited
  and the window full, the result is the \<^verbatim>\<open>TypeError\<close> of the missing method, and
  nothing is recorded.
\<close>

lemma checkRateLimit_at_limit:
  assumes "ip \<notin> blacklistedIPs sm"
    and "RATE_LIMITS action = Some (m, w)"
    and "rateLimitCache sm (ip @ '':'' @ action) = Some ts"
    and "m \<le> length (filter (\<lambda>time. now - time < w) ts)"
  shows "checkRateLimit now sm ip action = (Inl TypeError, sm)"
  using assms by (simp add: checkRateLimit_def Let_def)

text \<open>
  C4, on the code. With \<open>max = 5\<close> and \<open>window = 3600000\<close> (\<^verbatim>\<open>CREATE_FOLDER\<close>) and a
  fresh \<^verbatim>\<open>SecurityManager\<close>: five calls for one address inside the window return
  \<^verbatim>\<open>true\<close>; the sixth does not return \<^verbatim>\<open>false\<close>, it throws the \<^verbatim>\<open>TypeError\<close>; a
  call after every recorded time stamp has left the window returns \<^verbatim>\<open>true\<close> again.
\<close>

theorem checkRateLimit_sixth_call_throws:
  "fst (checkRateLimit_calls \<lparr>rateLimitCache = Map.empty, blacklistedIPs = {}\<rparr>
     [(0, ''1.2.3.4'', ''CREATE_FOLDER''), (1, ''1.2.3.4'', ''CREATE_FOLDER''),
      (2, ''1.2.3.4'', ''CREATE_FOLDER''), (3, ''1.2.3.4'', ''CREATE_FOLDER''),
      (4, ''1.2.3.4'', ''CREATE_FOLDER''), (5, ''1.2.3.4'', ''CREATE_FOLDER''),
      (3600004, ''1.2.3.4'', ''CREATE_FOLDER'')])
   = [Inr True, Inr True, Inr True, Inr True, Inr True, Inl TypeError, Inr True]"
  by (simp add: sec_defs)

subsection \<open>The blacklist\<close>

lemmas bl_defs = addToBlacklist_def promoted_blacklist_def blacklistPath_def empty_blacklist_def
  recent_report_def TIME_WINDOW_def REPORTS_THRESHOLD_def update_conv'

lemma recent_new_report:
  "recent_report now (JObj [(''timestamp'', JNum now), (''evidence'', evidence)])"
  by (simp add: recent_report_def TIME_WINDOW_def)

text \<open>
  C5, as the code has it. When \<^verbatim>\<open>addToBlacklist\<close> succeeds for an address whose hash
  has at least two pending reports of the last seven days (the report being added is
  the third) and is not yet among the \<^verbatim>\<open>ips\<close> of the stored blacklist, then the
  stored blacklist lists the hash, the address is in the \<^verbatim>\<open>blacklistedIPs\<close> of this
  object's \<^verbatim>\<open>SecurityManager\<close>, and in every later sequence of \<^verbatim>\<open>checkRateLimit\<close>
  calls on that \<^verbatim>\<open>SecurityManager\<close> each call for the address returns \<^verbatim>\<open>false\<close>,
  whatever the action and the quota.
\<close>

theorem addToBlacklist_promotes:
  assumes ok: "addToBlacklist H ipHash now g ip evidence = (Inr (), g')"
    and load: "loadData H (remote g) blacklistPath = Inr (Some bl)"
    and pend: "field bl ''pendingReports'' = Some (JObj pending)"
    and ent: "map_of pending (ipHash ip) = Some entry"
    and reps: "field entry ''reports'' = Some (JArr reports)"
    and two: "2 \<le> length (filter (recent_report now) reports)"
    and ips: "field bl ''ips'' = Some (JArr ips)"
    and new: "JStr (ipHash ip) \<notin> set ips"
  shows "(\<exists>b ips'. map_of (files (remote g')) blacklistPath = Some b \<and>
            field (content b) ''ips'' = Some (JArr ips') \<and> JStr (ipHash ip) \<in> set ips') \<and>
         ip \<in> blacklistedIPs (security g') \<and>
         (\<forall>cs i. i < length cs \<longrightarrow> fst (snd (cs ! i)) = ip \<longrightarrow>
            fst (checkRateLimit_calls (security g') cs) ! i = Inr False)"
proof -
  obtain bkvs where bl: "bl = JObj bkvs"
    using pend field_Some_obj by blast
  obtain ekvs where entry: "entry = JObj ekvs"
    using reps field_Some_obj by blast
  let ?reports' = "reports @ [JObj [(''timestamp'', JNum now), (''evidence'', evidence)]]"
  have three: "REPORTS_THRESHOLD \<le> length (filter (recent_report now) ?reports')"
    using two by (simp add: REPORTS_THRESHOLD_def recent_new_report)
  have "\<exists>promoted r'.
      (\<exists>ents pending' recent. promoted = promoted_blacklist bl (ipHash ip) now ips ents pending' recent) \<and>
      saveData H (remote g) blacklistPath promoted = (Inr (), r') \<and>
      g' = g\<lparr>security := (security g)\<lparr>blacklistedIPs := insert ip (blacklistedIPs (security g))\<rparr>,
              remote := r'\<rparr>"
    using ok load pend ent reps ips new three
    by (auto simp: addToBlacklist_def Let_def bl entry update_conv' recent_new_report
        split: if_splits option.splits jval.splits prod.splits)
  then obtain promoted r' where
    "\<exists>ents pending' recent. promoted = promoted_blacklist bl (ipHash ip) now ips ents pending' recent"
    and save: "saveData H (remote g) blacklistPath promoted = (Inr (), r')"
    and g': "g' = g\<lparr>security := (security g)\<lparr>blacklistedIPs := insert ip (blacklistedIPs (security g))\<rparr>,
                    remote := r'\<rparr>"
    by blast
  then have promoted: "field promoted ''ips'' = Some (JArr (ips @ [JStr (ipHash ip)]))"
    by (auto simp: promoted_blacklist_def bl update_conv')
  have r': "r' = write_file (remote g) blacklistPath promoted"
    using save by (rule saveData_Inr)
  have stored: "\<exists>b ips'. map_of (files (remote g')) blacklistPath = Some b \<and>
            field (content b) ''ips'' = Some (JArr ips') \<and> JStr (ipHash ip) \<in> set ips'"
    using promoted r' g' by simp
  have mem: "ip \<in> blacklistedIPs (security g')"
    using g' by simp
  have later: "\<forall>cs i. i < length cs \<longrightarrow> fst (snd (cs ! i)) = ip \<longrightarrow>
            fst (checkRateLimit_calls (security g') cs) ! i = Inr False"
    using checkRateLimit_calls_blacklisted [OF mem] by blast
  show ?thesis
    using stored mem later by blast
qed

theorem addToBlacklist_promotes_witness:
  "addToBlacklist (\<lambda>d. ''0f'') (\<lambda>ip. ''#'' @ ip) 3000
     \<lparr>remote = \<lparr>files = [(''data/blacklist/ips.json'',
        \<lparr>sha = 4, content = JObj
           [(''ips'', JArr []), (''entries'', JObj []),
            (''pendingReports'', JObj [(''#1.2.3.4'', JObj
               [(''reports'', JArr [JObj [(''timestamp'', JNum 1000), (''evidence'', JStr ''spam'')],
                                   JObj [(''timestamp'', JNum 2000), (''evidence'', JStr ''spam'')]]),
                (''firstReportedAt'', JNum 1000)])])]\<rparr>)], nextSha = 5\<rparr>,
      security = \<lparr>rateLimitCache = Map.empty, blacklistedIPs = {}\<rparr>, initialized = True\<rparr>
     ''1.2.3.4'' (JStr ''spam'')
   = (Inr (),
     \<lparr>remote = \<lparr>files = [(''data/blacklist/ips.json'',
        \<lparr>sha = 5, content = JObj
           [(''ips'', JArr [JStr ''#1.2.3.4'']),
            (''entries'', JObj [(''#1.2.3.4'', JObj [(''timestamp'', JNum 3000),
               (''reports'', JArr [JObj [(''timestamp'', JNum 1000), (''evidence'', JStr ''spam'')],
                                   JObj [(''timestamp'', JNum 2000), (''evidence'', JStr ''spam'')],
                                   JObj [(''timestamp'', JNum 3000), (''evidence'', JStr ''spam'')]])])]),
            (''pendingReports'', JObj [])]\<rparr>)], nextSha = 6\<rparr>,
      security = \<lparr>rateLimitCache = Map.empty, blacklistedIPs = {''1.2.3.4''}\<rparr>, initialized = True\<rparr>) \<and>
   fst (checkRateLimit_calls \<lparr>rateLimitCache = Map.empty, blacklistedIPs = {''1.2.3.4''}\<rparr>
      [(4000, ''5.6.7.8'', ''LIKE_ACTION''), (4001, ''1.2.3.4'', ''LIKE_ACTION'')]) ! 1 = Inr False"
proof -
  let ?bl = "JObj
           [(''ips'', JArr []), (''entries'', JObj []),
            (''pendingReports'', JObj [(''#1.2.3.4'', JObj
               [(''reports'', JArr [JObj [(''timestamp'', JNum 1000), (''evidence'', JStr ''spam'')],
                                   JObj [(''timestamp'', JNum 2000), (''evidence'', JStr ''spam'')]]),
                (''firstReportedAt'', JNum 1000)])])]"
  let ?g = "\<lparr>remote = \<lparr>files = [(''data/blacklist/ips.json'', \<lparr>sha = 4, content = ?bl\<rparr>)], nextSha = 5\<rparr>,
      security = \<lparr>rateLimitCache = Map.empty, blacklistedIPs = {}\<rparr>, initialized = True\<rparr>"
  let ?g' = "\<lparr>remote = \<lparr>files = [(''data/blacklist/ips.json'',
        \<lparr>sha = 5, content = JObj
           [(''ips'', JArr [JStr ''#1.2.3.4'']),
            (''entries'', JObj [(''#1.2.3.4'', JObj [(''timestamp'', JNum 3000),
               (''reports'', JArr [JObj [(''timestamp'', JNum 1000), (''evidence'', JStr ''spam'')],
                                   JObj [(''timestamp'', JNum 2000), (''evidence'', JStr ''spam'')],
                                   JObj [(''timestamp'', JNum 3000), (''evidence'', JStr ''spam'')]])])]),
            (''pendingReports'', JObj [])]\<rparr>)], nextSha = 6\<rparr>,
      security = \<lparr>rateLimitCache = Map.empty, blacklistedIPs = {''1.2.3.4''}\<rparr>, initialized = True\<rparr>"
  have ok: "addToBlacklist (\<lambda>d. ''0f'') (\<lambda>ip. ''#'' @ ip) 3000 ?g ''1.2.3.4'' (JStr ''spam'') = (Inr (), ?g')"
    by (simp add: bl_defs run_defs)
  have load: "loadData (\<lambda>d. ''0f'') (remote ?g) blacklistPath = Inr (Some ?bl)"
    by (simp add: bl_defs run_defs)
  have two: "2 \<le> length (filter (recent_report 3000)
      [JObj [(''timestamp'', JNum 1000), (''evidence'', JStr ''spam'')],
       JObj [(''timestamp'', JNum 2000), (''evidence'', JStr ''spam'')]])"
    by (simp add: bl_defs)
  from addToBlacklist_promotes [OF ok load _ _ _ two, of "[(''#1.2.3.4'', JObj
               [(''reports'', JArr [JObj [(''timestamp'', JNum 1000), (''evidence'', JStr ''spam'')],
                                   JObj [(''timestamp'', JNum 2000), (''evidence'', JStr ''spam'')]]),
                (''firstReportedAt'', JNum 1000)])]" _ "[]"]
  have "\<forall>cs i. i < length cs \<longrightarrow> fst (snd (cs ! i)) = ''1.2.3.4'' \<longrightarrow>
            fst (checkRateLimit_calls (security ?g') cs) ! i = Inr False"
    by simp
  from this [rule_format, of 1 "[(4000, ''5.6.7.8'', ''LIKE_ACTION''), (4001, ''1.2.3.4'', ''LIKE_ACTION'')]"]
  show ?thesis using ok by simp
qed

text \<open>
  A hash that is already listed (promoted by another instance, or before this page was
  loaded again): the third recent report is stored, the hash is in the persistent
  blacklist, and \<^verbatim>\<open>checkRateLimit\<close> of this instance still admits the address,
  because only the set in memory is consulted and it is filled only at the promotion.
\<close>

theorem addToBlacklist_listed_hash_counterexample:
  "addToBlacklist (\<lambda>d. ''0f'') (\<lambda>ip. ''#'' @ ip) 3000
     \<lparr>remote = \<lparr>files = [(''data/blacklist/ips.json'',
        \<lparr>sha = 4, content = JObj
           [(''ips'', JArr [JStr ''#1.2.3.4'']),
            (''entries'', JObj [(''#1.2.3.4'', JObj [(''timestamp'', JNum 500), (''reports'', JArr [])])]),
            (''pendingReports'', JObj [(''#1.2.3.4'', JObj
               [(''reports'', JArr [JObj [(''timestamp'', JNum 1000), (''evidence'', JStr ''spam'')],
                                   JObj [(''timestamp'', JNum 2000), (''evidence'', JStr ''spam'')]]),
                (''firstReportedAt'', JNum 1000)])])]\<rparr>)], nextSha = 5\<rparr>,
      security = \<lparr>rateLimitCache = Map.empty, blacklistedIPs = {}\<rparr>, initialized = True\<rparr>
     ''1.2.3.4'' (JStr ''spam'')
   = (Inr (),
     \<lparr>remote = \<lparr>files = [(''data/blacklist/ips.json'',
        \<lparr>sha = 5, content = JObj
           [(''ips'', JArr [JStr ''#1.2.3.4'']),
            (''entries'', JObj [(''#1.2.3.4'', JObj [(''timestamp'', JNum 500), (''reports'', JArr [])])]),
            (''pendingReports'', JObj [(''#1.2.3.4'', JObj
               [(''reports'', JArr [JObj [(''timestamp'', JNum 1000), (''evidence'', JStr ''spam'')],
                                   JObj [(''timestamp'', JNum 2000), (''evidence'', JStr ''spam'')],
                                   JObj [(''timestamp'', JNum 3000), (''evidence'', JStr ''spam'')]]),
                (''firstReportedAt'', JNum 1000)])])]\<rparr>)], nextSha = 6\<rparr>,
      security = \<lparr>rateLimitCache = Map.empty, blacklistedIPs = {}\<rparr>, initialized = True\<rparr>) \<and>
   fst (checkRateLimit 4000 \<lparr>rateLimitCache = Map.empty, blacklistedIPs = {}\<rparr>
          ''1.2.3.4'' ''LIKE_ACTION'') = Inr True"
  by (simp add: bl_defs run_defs checkRateLimit_def RATE_LIMITS_def)

subsection \<open>Documents written by the program, and the stand-in repository\<close>

lemma set_field_obj: "\<exists>kvs. set_field d k v = JObj kvs"
  by (cases d) simp_all

lemma field_set_field_other': "k' \<noteq> k \<Longrightarrow> field (set_field d k v) k' = field d k'"
  by (cases d) (simp_all add: update_conv')


lemma paths_differ [simp]:
  "silentFolderPath a \<noteq> linkPath b" "silentFolderPath a \<noteq> activeFolderPath b"
  "activeFolderPath a \<noteq> silentFolderPath b"
  by (simp_all add: silentFolderPath_def linkPath_def activeFolderPath_def)

lemma createFolder_stores_silent:
  assumes "createFolder L D g folderData ip = Some (Inr v, g')"
  shows "\<exists>b. map_of (files (remote g')) (silentFolderPath (uuid D)) = Some b \<and>
             content b = folderMetadata L D folderData ip"
proof -
  from assms have body: "createFolder_body L D g folderData ip = Some (Inr v, g')"
    by (cases "createFolder_body L D g folderData ip")
      (auto simp: createFolder_def split: sum.splits)
  then obtain r1 r2 r3 where
    p1: "PUT r1 (silentFolderPath (uuid D)) (folderMetadata L D folderData ip) None = Inr r2"
    and p2: "PUT r2 (linkPath (shareToken D)) (linkMetadata L D folderData) None = Inr r3"
    and g': "remote g' = r3"
    by (auto simp: createFolder_body_def Let_def
        split: Option.bind_splits sum.splits prod.splits if_splits)
  have "r2 = write_file r1 (silentFolderPath (uuid D)) (folderMetadata L D folderData ip)"
    using p1 by (rule PUT_Inr)
  moreover have "r3 = write_file r2 (linkPath (shareToken D)) (linkMetadata L D folderData)"
    using p2 by (rule PUT_Inr)
  ultimately show ?thesis
    using g' by simp
qed

lemma deleteFile_existing:
  "map_of (files r) path = Some b \<Longrightarrow>
   deleteFile r path = (Inr (), r\<lparr>files := AList.delete path (files r)\<rparr>)"
  by (simp add: deleteFile_def GET_def DELETE_def)

lemma loadData_Some_file:
  "loadData H r path = Inr (Some d) \<Longrightarrow> \<exists>b. map_of (files r) path = Some b \<and> content b = d"
  by (auto simp: loadData_def GET_def Let_def split: option.splits list.splits if_splits)



lemmas path_defs = silentFolderPath_def activeFolderPath_def linkPath_def emailPath_def

lemmas repo_defs = GET_def PUT_def DELETE_def entries_def child_of_def List.map_filter_def
  blocked_def write_file_def

lemmas demo_defs = demo_library_def demo_draws_def demo_folderData_def demo_repo_def
  demo_folder_repo_def demo_storage_def demo_email_def

lemmas doc_defs = folderMetadata_def folderDraft_def linkMetadata_def emailMetadata_def
  emailDraft_def property_def
  or_empty_array_def generateChecksum_def hashPassword_def generateSecurePassword_def
  securePasswordCharset_def encryptContent_def


lemma clear_fresh_checksum:
  "field m ''checksum'' = Some (JStr []) \<Longrightarrow>
   set_field (set_field m ''checksum'' c) ''checksum'' (JStr []) = m"
  by (cases m) (simp_all add: update_triv)

lemma loadData_accepts_fresh_checksum:
  assumes "map_of (files r) path = Some b"
    and "content b = set_field m ''checksum'' (JStr (H m))"
    and "field m ''checksum'' = Some (JStr [])"
  shows "loadData H r path = Inr (Some (content b))"
proof -
  have "content b \<noteq> JNull"
    using assms(2) set_field_obj [of m "''checksum''" "JStr (H m)"] by auto
  then show ?thesis
    using assms by (simp add: loadData_file clear_fresh_checksum)
qed

lemma emailDraft_fields:
  "field (emailDraft L now emailId hs folderId emailData ip) ''checksum'' = Some (JStr [])"
  "field (emailDraft L now emailId hs folderId emailData ip) ''likes'' = Some (JNum 0)"
  by (simp_all add: emailDraft_def property_def split: option.splits)

lemma folderDraft_fields:
  "field (folderDraft L D folderData ip) ''checksum'' = Some (JStr [])"
  "field (folderDraft L D folderData ip) ''status'' = Some (JStr ''silent'')"
  by (simp_all add: folderDraft_def Let_def property_def split: option.splits)


lemma demo_files:
  "map_of (files demo_folder_repo) ''data/silent/folders/f1.json''
     = Some \<lparr>sha = 8, content = folderMetadata demo_library demo_draws demo_folderData ''1.2.3.4''\<rparr>"
  "map_of (files demo_folder_repo) ''data/emails/f1/e1.json'' = Some \<lparr>sha = 10, content = demo_email ''e1''\<rparr>"
  "map_of (files demo_folder_repo) ''data/emails/f1/e2.json'' = Some \<lparr>sha = 11, content = demo_email ''e2''\<rparr>"
  "map_of (files demo_folder_repo) ''data/emails/f1/e3.json'' = Some \<lparr>sha = 12, content = demo_email ''e3''\<rparr>"
  "map_of (files demo_folder_repo) ''data/emails/f1/e4.json'' = Some \<lparr>sha = 13, content = demo_email ''e4''\<rparr>"
  "map_of (files demo_folder_repo) ''data/emails/f1/e5.json'' = Some \<lparr>sha = 14, content = demo_email ''e5''\<rparr>"
  by (simp_all add: demo_folder_repo_def demo_repo_def)

lemma demo_load_folder:
  "loadData (generateChecksum demo_library) demo_folder_repo (silentFolderPath ''f1'')
     = Inr (Some (folderMetadata demo_library demo_draws demo_folderData ''1.2.3.4''))"
  using loadData_accepts_fresh_checksum
    [OF demo_files(1), of "folderDraft demo_library demo_draws demo_folderData ''1.2.3.4''"
       "generateChecksum demo_library"]
  by (simp add: silentFolderPath_def folderMetadata_def folderDraft_fields)







subsection \<open>The life cycle of a folder\<close>

lemma truthy_set_field [simp]: "truthy (Some (set_field d k v))"
  by (cases d) simp_all

lemma getFolderInteractions_count:
  assumes "countVersions H r folderId (loadEmails H r folderId) = Inr n"
  shows "getFolderInteractions H r folderId
     = int (length (loadEmails H r folderId))
       + sum_list (map likesOrZero (loadEmails H r folderId)) + int n"
  using assms by (simp add: getFolderInteractions_def Let_def)

lemma createFolder_folder_loads:
  assumes "createFolder L D g folderData ip = Some (Inr v, g')"
  shows "loadData (generateChecksum L) (remote g') (silentFolderPath (uuid D))
     = Inr (Some (folderMetadata L D folderData ip))"
proof -
  obtain b where b: "map_of (files (remote g')) (silentFolderPath (uuid D)) = Some b"
    and c: "content b = folderMetadata L D folderData ip"
    using createFolder_stores_silent [OF assms] by blast
  show ?thesis
    using loadData_accepts_fresh_checksum [OF b, of "folderDraft L D folderData ip" "generateChecksum L"] c
    by (simp add: folderMetadata_def folderDraft_fields)
qed






subsection \<open>Deleting a folder\<close>

text \<open>
  C6. \<^verbatim>\<open>deleteFolder(folderId, password)\<close>, called with both inputs non-empty for a
  folder that is found (under the silent path, or else under the active path), with a
  password that does not verify against the stored \<^verbatim>\<open>adminHash\<close> and \<^verbatim>\<open>adminSalt\<close>,
  throws the invalid-password error and leaves the whole state as it was: the folder
  document, its emails, its attachments and its links are the ones before the call, so
  every load after it answers as before.
\<close>

theorem deleteFolder_wrong_password:
  assumes "folderId \<noteq> []" and "adminPassword \<noteq> []"
    and found:
      "loadData (generateChecksum L) (remote g) (silentFolderPath folderId) = Inr (Some folder) \<or>
       (loadData (generateChecksum L) (remote g) (silentFolderPath folderId) = Inr None \<and>
        loadData (generateChecksum L) (remote g) (activeFolderPath folderId) = Inr (Some folder))"
    and "truthy (Some folder)"
    and wrong: "\<not> verifyStoredPassword L adminPassword folder ''adminHash'' ''adminSalt''"
  shows "deleteFolder L g folderId adminPassword = (Inl InvalidFolderAdminPassword, g)"
  using assms by (auto simp: deleteFolder_def)

lemma demo_password: "generateSecurePassword (passwordBytes demo_draws) = ''abcdefghijklmnopqrst''"
  by (simp add: generateSecurePassword_def demo_draws_def securePasswordCharset_def)

lemma demo_folder_credentials:
  "field (folderMetadata demo_library demo_draws demo_folderData ''1.2.3.4'') ''adminHash''
     = Some (JStr ''pbkdf2:a1b2:abcdefghijklmnopqrst'')"
  "field (folderMetadata demo_library demo_draws demo_folderData ''1.2.3.4'') ''adminSalt''
     = Some (JStr ''a1b2'')"
  by (simp_all add: folderMetadata_def folderDraft_def Let_def field_set_field_other'
      demo_password hashPassword_def property_def demo_folderData_def)
     (simp_all add: demo_library_def demo_draws_def)

theorem deleteFolder_wrong_password_witness:
  "deleteFolder demo_library (demo_storage demo_folder_repo) ''f1'' ''guess''
     = (Inl InvalidFolderAdminPassword, demo_storage demo_folder_repo)"
proof -
  have load: "loadData (generateChecksum demo_library) (remote (demo_storage demo_folder_repo))
      (silentFolderPath ''f1'')
      = Inr (Some (folderMetadata demo_library demo_draws demo_folderData ''1.2.3.4''))"
    by (simp add: demo_storage_def demo_load_folder)
  have obj: "truthy (Some (folderMetadata demo_library demo_draws demo_folderData ''1.2.3.4''))"
    by (simp add: folderMetadata_def)
  have wrong: "\<not> verifyStoredPassword demo_library ''guess''
      (folderMetadata demo_library demo_draws demo_folderData ''1.2.3.4'') ''adminHash'' ''adminSalt''"
    by (simp add: verifyStoredPassword_def demo_folder_credentials verifyPassword_def)
       (simp add: demo_library_def)
  show ?thesis
    using deleteFolder_wrong_password [OF _ _ disjI1 [OF load] obj wrong] by simp
qed

text \<open>
  With the right password the same call does delete: in the stand-in repository the
  folder document, its five emails and its share link are gone afterwards, and only the
  directory markers remain.
\<close>

lemma remote_demo: "remote (demo_storage r) = r"
  by (simp add: demo_storage_def)

lemma deleteFolder_right_password_demo:
  "\<exists>g'. deleteFolder demo_library (demo_storage demo_folder_repo) ''f1'' ''abcdefghijklmnopqrst''
     = (Inr True, g') \<and> map fst (files (remote g')) = map fst (files demo_repo)"
proof -
  have right: "verifyStoredPassword demo_library ''abcdefghijklmnopqrst''
      (folderMetadata demo_library demo_draws demo_folderData ''1.2.3.4'') ''adminHash'' ''adminSalt''"
    by (simp add: verifyStoredPassword_def demo_folder_credentials verifyPassword_def)
       (simp add: demo_library_def)
  have obj: "truthy (Some (folderMetadata demo_library demo_draws demo_folderData ''1.2.3.4''))"
    by (simp add: folderMetadata_def)
  have start: "deleteFolder demo_library (demo_storage demo_folder_repo) ''f1'' ''abcdefghijklmnopqrst''
     = (case deleteFolderContentsWithRetry demo_folder_repo ''f1'' of
          (Inl e, r1) \<Rightarrow> (Inl e, (demo_storage demo_folder_repo)\<lparr>remote := r1\<rparr>)
        | (Inr u, r1) \<Rightarrow>
            (case deleteFile r1 (silentFolderPath ''f1'') of
               (Inl e, r2) \<Rightarrow> (Inl e, (demo_storage demo_folder_repo)\<lparr>remote := r2\<rparr>)
             | (Inr u', r2) \<Rightarrow>
                 (Inr True,
                  (demo_storage demo_folder_repo)
                    \<lparr>remote := cleanUpShareLinks (generateChecksum demo_library) r2 ''f1''\<rparr>)))"
    by (simp add: deleteFolder_def remote_demo demo_load_folder right obj)
  show ?thesis
    unfolding start
    by (simp add: deleteFolderContentsWithRetry_def numeral_3_eq_3 deletePath_def deleteFile_def
       cleanUpShareLinks_def endsWith_def loadData_def Let_def demo_draws_def demo_storage_def
       repo_defs path_defs demo_folder_repo_def demo_repo_def linkMetadata_def delete_conv')
qed

subsection \<open>Attachment sizes\<close>

text \<open>
  C2, as the code has it. The form (\<^verbatim>\<open>validateFile\<close>) rejects every file larger than
  5 MB = 5242880 bytes, so it rejects 6000000 bytes. The validator of the storage layer
  (\<^verbatim>\<open>validateAttachment\<close>) rejects a size only above 10 MB = 10485760 bytes: an
  attachment with a size up to that and one of the four allowed types passes, so an
  \<^verbatim>\<open>image/png\<close> of 6000000 bytes passes.
\<close>

theorem attachment_size_caps:
  "(MAX_FILE_SIZE < file_size file \<longrightarrow> validateFile file = Inl FileExceeds5MB) \<and>
   (field attachment ''size'' = Some (JNum n) \<longrightarrow> field attachment ''type'' = Some (JStr t) \<longrightarrow>
      validateAttachment attachment =
        (if 10 * 1024 * 1024 < n then Inl AttachmentExceeds10MB
         else if t \<notin> set ALLOWED_FILE_TYPES then Inl InvalidAttachmentType
         else Inr ()))"
  by (auto simp: validateFile_def validateAttachment_def ALLOWED_FILE_TYPES_def)

theorem attachment_size_caps_witness:
  "validateFile \<lparr>file_name = ''big.png'', file_type = ''image/png'', file_size = 6000000\<rparr>
     = Inl FileExceeds5MB \<and>
   validateAttachment
     (JObj [(''name'', JStr ''big.png''), (''type'', JStr ''image/png''), (''size'', JNum 6000000)])
     = Inr ()"
  using attachment_size_caps
    [of "\<lparr>file_name = ''big.png'', file_type = ''image/png'', file_size = 6000000\<rparr>"
        "JObj [(''name'', JStr ''big.png''), (''type'', JStr ''image/png''), (''size'', JNum 6000000)]"
        6000000 "''image/png''"]
  by (simp add: MAX_FILE_SIZE_def ALLOWED_FILE_TYPES_def)

text \<open>
  The storage layer does not reject the attachment of 6000000 bytes:
  \<^verbatim>\<open>validateAttachment\<close> accepts it, and \<^verbatim>\<open>saveEmail\<close>, which calls no validator,
  stores the email and the attachment, whatever the library computes.
\<close>

theorem storage_accepts_six_megabytes_counterexample:
  "validateAttachment
     (JObj [(''name'', JStr ''big.png''), (''type'', JStr ''image/png''), (''size'', JNum 6000000)])
     = Inr () \<and>
   (\<forall>L :: string library. \<exists>m g'.
      saveEmail L 2000 ''e9'' [7, 8, 9] ''5a''
        \<lparr>remote = \<lparr>files = [(''data/folders/f1.json'',
                       \<lparr>sha = 1, content = JObj [(''id'', JStr ''f1''), (''status'', JStr ''active'')]\<rparr>)],
                    nextSha = 2\<rparr>,
         security = \<lparr>rateLimitCache = Map.empty, blacklistedIPs = {}\<rparr>, initialized = True\<rparr>
        ''f1''
        (JObj [(''subject'', JStr ''Hello''), (''body'', JStr ''World''),
               (''attachments'', JArr [JObj [(''name'', JStr ''big.png''),
                   (''type'', JStr ''image/png''), (''size'', JNum 6000000)]])])
        ''1.2.3.4'' = (Inr m, g') \<and>
      (\<exists>b. map_of (files (remote g')) ''data/attachments/f1/e9/big.png'' = Some b \<and>
           field (content b) ''size'' = Some (JNum 6000000)))"
  by (simp add: validateAttachment_def saveEmail_def sec_defs run_defs path_defs attachmentName_def
      update_conv')

subsection \<open>Passwords and encryption\<close>

text \<open>
  C7. With the hexadecimal printing of the salt read back exactly (\<^verbatim>\<open>Hex.parse\<close>
  after \<^verbatim>\<open>toString(Hex)\<close>), \<^verbatim>\<open>verifyPassword(p, hash, salt)\<close> is true for
  \<^verbatim>\<open>{hash, salt} = hashPassword(p)\<close>, for every password and every salt drawn; and
  for another password it is false whenever the key derived from that password and the
  salt differs from the stored one, that is, always but for a collision of PBKDF2.
\<close>

theorem verifyPassword_hashPassword:
  assumes "Hex_parse L (Hex_stringify L salt) = salt"
  shows "verifyPassword L p (fst (hashPassword L salt p)) (snd (hashPassword L salt p)) \<and>
         (PBKDF2 L p2 salt \<noteq> PBKDF2 L p salt \<longrightarrow>
            \<not> verifyPassword L p2 (fst (hashPassword L salt p)) (snd (hashPassword L salt p)))"
  using assms by (simp add: verifyPassword_def hashPassword_def)

theorem verifyPassword_hashPassword_witness:
  "verifyPassword demo_library ''secret'' (fst (hashPassword demo_library ''a1b2'' ''secret''))
     (snd (hashPassword demo_library ''a1b2'' ''secret'')) \<and>
   \<not> verifyPassword demo_library ''guess'' (fst (hashPassword demo_library ''a1b2'' ''secret''))
     (snd (hashPassword demo_library ''a1b2'' ''secret''))"
proof -
  have rt: "Hex_parse demo_library (Hex_stringify demo_library ''a1b2'') = ''a1b2''"
    by (simp add: demo_library_def)
  have diff: "PBKDF2 demo_library ''guess'' ''a1b2'' \<noteq> PBKDF2 demo_library ''secret'' ''a1b2''"
    by (simp add: demo_library_def)
  show ?thesis
    using verifyPassword_hashPassword [OF rt, of "''secret''" "''guess''"] diff by blast
qed

text \<open>
  The round trip of \<^verbatim>\<open>encryptContent\<close> and \<^verbatim>\<open>decryptContent\<close> under one password
  rests on the round trips of the library: AES decrypts what it encrypted, and
  \<^verbatim>\<open>JSON.parse\<close> reads back what \<^verbatim>\<open>JSON.stringify\<close> printed. Under another password
  the result is whatever the library's \<^verbatim>\<open>AES.decrypt\<close> and \<^verbatim>\<open>JSON.parse\<close> make of
  the cipher text: the two methods add no check of their own.
\<close>

lemma decryptContent_encryptContent:
  assumes "AES_decrypt L (AES_encrypt L salt (JSON_stringify L d) p) p = Inr (JSON_stringify L d)"
    and "JSON_parse L (JSON_stringify L d) = Inr d"
  shows "decryptContent L (encryptContent L salt d p) p = Inr d"
  using assms by (simp add: decryptContent_def encryptContent_def)

lemma decryptContent_other_password:
  "decryptContent L (encryptContent L salt d p) p2
     = (case AES_decrypt L (AES_encrypt L salt (JSON_stringify L d) p) p2 of
          Inl e \<Rightarrow> Inl e | Inr text \<Rightarrow> JSON_parse L text)"
  by (simp add: decryptContent_def encryptContent_def)

subsection \<open>Checksums that the writers leave behind\<close>

text \<open>
  \<^verbatim>\<open>saveEmail\<close> and \<^verbatim>\<open>createFolder\<close> sign a document by computing the digest of the
  document with \<^verbatim>\<open>checksum: ''\<close> and storing it in that field. \<^verbatim>\<open>loadData\<close> verifies
  such a document by emptying the field before it hashes; the verification inside
  \<^verbatim>\<open>saveData\<close> hashes the stored document as it is, checksum included. So unless the
  digest of the signed document happens to equal the digest of the unsigned one,
  \<^verbatim>\<open>updateEmailLikes\<close> on an email written by \<^verbatim>\<open>saveEmail\<close> loads the email and is
  then refused by \<^verbatim>\<open>saveData\<close>; nothing is written.
\<close>

lemma updateEmailLikes_rejected_for_signed_email:
  assumes stored: "map_of (files (remote g)) (emailPath folderId emailId) = Some b"
    and signed: "content b = set_field m ''checksum'' (JStr (H m))"
    and draft: "field m ''checksum'' = Some (JStr [])"
    and nonempty: "H m \<noteq> []"
    and nofix: "H (content b) \<noteq> H m"
  shows "updateEmailLikes H now g folderId emailId action = (Inl DataIntegrityCheckFailed, g)"
proof -
  have load: "loadData H (remote g) (emailPath folderId emailId) = Inr (Some (content b))"
    using stored signed draft by (rule loadData_accepts_fresh_checksum)
  have obj: "truthy (Some (content b))"
    using signed by simp
  obtain u where rd: "updateEmailLikes_read H now (remote g) folderId emailId action = Inr u"
    using load obj by (simp add: updateEmailLikes_read_def Let_def)
  have cs: "field (content b) ''checksum'' = Some (JStr (H m))"
    using signed by simp
  have "saveData H (remote g) (emailPath folderId emailId) u = (Inl DataIntegrityCheckFailed, remote g)"
    using stored cs nonempty nofix by (rule saveData_rejects_checksummed_document)
  then show ?thesis
    using rd by (simp add: updateEmailLikes_def)
qed

text \<open>With the stand-in digest, on the first email of the stand-in repository:\<close>

lemma demo_like_rejected:
  "updateEmailLikes (generateChecksum demo_library) 3000 (demo_storage demo_folder_repo)
     ''f1'' ''e1'' ''increment'' = (Inl DataIntegrityCheckFailed, demo_storage demo_folder_repo)"
proof -
  let ?m = "emailDraft demo_library 1500 ''e1'' (hashPassword demo_library ''e5f6'' ''secret'')
        ''f1'' (JObj [(''subject'', JStr ''Hello''), (''body'', JStr ''World'')]) ''1.2.3.4''"
  have stored: "map_of (files (remote (demo_storage demo_folder_repo))) (emailPath ''f1'' ''e1'')
      = Some \<lparr>sha = 10, content = demo_email ''e1''\<rparr>"
    by (simp add: remote_demo emailPath_def demo_files)
  have signed: "content \<lparr>sha = 10, content = demo_email ''e1''\<rparr>
      = set_field ?m ''checksum'' (JStr (generateChecksum demo_library ?m))"
    by (simp add: demo_email_def emailMetadata_def)
  have nonempty: "generateChecksum demo_library ?m \<noteq> []"
    by (simp add: generateChecksum_def demo_library_def)
  have nofix: "generateChecksum demo_library (content \<lparr>sha = 10, content = demo_email ''e1''\<rparr>)
      \<noteq> generateChecksum demo_library ?m"
    by (simp add: demo_email_def emailMetadata_def emailDraft_def property_def generateChecksum_def
        demo_library_def hashPassword_def or_empty_array_def)
  show ?thesis
    using stored signed emailDraft_fields(1) nonempty nofix
    by (rule updateEmailLikes_rejected_for_signed_email)
qed

text \<open>
  \<^verbatim>\<open>checkFolderApproval\<close> copies the silent folder, checksum included, changes
  \<^verbatim>\<open>status\<close>, \<^verbatim>\<open>approvedAt\<close> and \<^verbatim>\<open>updatedAt\<close> and saves the copy; its last step loads the
  active document again and returns it. That load verifies the copied checksum
  against the changed document: after the writes are done, the method returns the
  approved folder only if the folder carries no checksum or the old checksum
  matches the new content.
\<close>

lemma checkFolderApproval_returns:
  assumes load: "loadData H (remote s) (silentFolderPath folderId) = Inr (Some silentFolder)"
    and obj: "truthy (Some silentFolder)"
    and due: "(\<exists>t. field silentFolder ''createdAt'' = Some (JNum t) \<and> TIME_TO_APPROVE \<le> now - t) \<or>
              MIN_INTERACTIONS \<le> getFolderInteractions H (remote s) folderId"
    and save: "fst (saveData H (remote s) (activeFolderPath folderId) (approvedFolder silentFolder now)) = Inr ()"
  shows "fst (checkFolderApproval H now s folderId) =
     (if truthy (field (approvedFolder silentFolder now) ''checksum'') \<and>
         field (approvedFolder silentFolder now) ''checksum'' \<noteq>
           Some (JStr (H (set_field (approvedFolder silentFolder now) ''checksum'' (JStr []))))
      then Inl DataIntegrityCheckFailed else Inr (Some (approvedFolder silentFolder now)))"
proof -
  let ?r1 = "write_file (remote s) (activeFolderPath folderId) (approvedFolder silentFolder now)"
  let ?r2 = "?r1\<lparr>files := AList.delete (silentFolderPath folderId) (files ?r1)\<rparr>"
  have sv: "saveData H (remote s) (activeFolderPath folderId) (approvedFolder silentFolder now) = (Inr (), ?r1)"
    using save saveData_Inr [of H "remote s" "activeFolderPath folderId" "approvedFolder silentFolder now"]
    by (cases "saveData H (remote s) (activeFolderPath folderId) (approvedFolder silentFolder now)") auto
  obtain b where b: "map_of (files (remote s)) (silentFolderPath folderId) = Some b"
    using load loadData_Some_file by blast
  then have b1: "map_of (files ?r1) (silentFolderPath folderId) = Some b" by simp
  have del: "deleteFile ?r1 (silentFolderPath folderId) = (Inr (), ?r2)"
    using b1 by (rule deleteFile_existing)
  have approve: "(case field silentFolder ''createdAt'' of Some (JNum t) \<Rightarrow> TIME_TO_APPROVE \<le> now - t | _ \<Rightarrow> False)
      \<or> MIN_INTERACTIONS \<le> getFolderInteractions H (remote s) folderId"
    using due by auto
  have run: "fst (checkFolderApproval H now s folderId) = loadData H ?r2 (activeFolderPath folderId)"
    using load obj approve sv del by (simp add: checkFolderApproval_def Let_def)
  have active: "map_of (files ?r2) (activeFolderPath folderId)
      = Some \<lparr>sha = nextSha (remote s), content = approvedFolder silentFolder now\<rparr>"
    by (simp add: delete_conv')
  have "approvedFolder silentFolder now \<noteq> JNull"
    by (simp add: approvedFolder_def) (metis jval.distinct(9) set_field_obj)
  then show ?thesis
    using run loadData_file [OF active, of H] by simp
qed

end
